theory Spec2Isabelle
  imports
    Complex_Main
    "HOL-Library.Word"
    "HOL-Library.Monad_Syntax"
    "HOL-Library.Signed_Division"
begin

unbundle bit_operations_syntax

section \<open>Linearized expressions and their buffer (dg\_bar.c)\<close>

text \<open>
  \<^verbatim>\<open>typedef void* Identifier; typedef double Scalar; #define MAX_NDEP 100\<close>

  An identifier is an address, compared with \<^verbatim>\<open><\<close> and \<^verbatim>\<open>==\<close>; it is modelled by
  its numeric value. A \<^verbatim>\<open>Scalar\<close> is a C double; the model computes with real
  numbers, so rounding, infinities and NaN are outside it. The two fixed-size arrays of
  a \<^verbatim>\<open>LinExpr\<close> are functions from the slot number; every function below that
  indexes them checks the slot against \<open>MAX_NDEP\<close> and has no result (\<open>None\<close>)
  where the C program would index out of the array.
\<close>

type_synonym Identifier = nat
type_synonym Scalar = real

definition MAX_NDEP :: int where
  "MAX_NDEP = 100"

record LinExpr =
  val :: Scalar
  ndep :: int
  "identifier" :: "nat \<Rightarrow> Identifier"
  jacobian :: "nat \<Rightarrow> Scalar"

text \<open>
  The buffer is a heap block obtained from \<^verbatim>\<open>VG_(malloc)\<close>. A pointer to a
  \<^verbatim>\<open>LinExpr\<close> is a block number and an element index; a block that was never
  allocated or has been freed maps to \<open>None\<close>, and reading or writing through a
  pointer into such a block, or past the end of a live one, has no result.
  The globals \<^verbatim>\<open>buffer_linexpr\<close>, \<^verbatim>\<open>n_linexpr\<close> and \<^verbatim>\<open>max_linexpr\<close> are fields
  of the state; \<^verbatim>\<open>buffer_linexpr\<close> is \<open>None\<close> while it is the null pointer.
\<close>

type_synonym block = nat
type_synonym LinExpr_ptr = "block \<times> int"

record dg_state =
  heap :: "block \<Rightarrow> LinExpr list option"
  next_block :: block
  buffer_linexpr :: "block option"
  n_linexpr :: int
  max_linexpr :: int

definition INT_MAX :: int where
  "INT_MAX = 2147483647"

definition rd :: "dg_state \<Rightarrow> LinExpr_ptr \<Rightarrow> LinExpr option" where
  "rd s p =
     (case heap s (fst p) of
        None \<Rightarrow> None
      | Some arr \<Rightarrow>
          if 0 \<le> snd p \<and> nat (snd p) < length arr then Some (arr ! nat (snd p)) else None)"

definition wr :: "dg_state \<Rightarrow> LinExpr_ptr \<Rightarrow> LinExpr \<Rightarrow> dg_state option" where
  "wr s p e =
     (case heap s (fst p) of
        None \<Rightarrow> None
      | Some arr \<Rightarrow>
          if 0 \<le> snd p \<and> nat (snd p) < length arr
          then Some (s\<lparr>heap := (heap s)(fst p \<mapsto> arr[nat (snd p) := e])\<rparr>)
          else None)"

text \<open>Pointer arithmetic \<^verbatim>\<open>a + k\<close> (and so \<^verbatim>\<open>a[k]\<close>) stays in the block of \<^verbatim>\<open>a\<close>.\<close>

definition ptr_add :: "LinExpr_ptr \<Rightarrow> int \<Rightarrow> LinExpr_ptr" where
  "ptr_add p k = (fst p, snd p + k)"

text \<open>
  \<^verbatim>\<open>VG_(malloc)(cc, sizeof(LinExpr)*k)\<close>: a fresh block of \<open>k\<close> elements whose
  contents are not initialised; \<open>uninit\<close> says what happens to be there.
  \<^verbatim>\<open>VG_(malloc)\<close> does not return when it cannot allocate.
\<close>

definition VG_malloc :: "(nat \<Rightarrow> LinExpr) \<Rightarrow> nat \<Rightarrow> dg_state \<Rightarrow> block \<times> dg_state" where
  "VG_malloc uninit k s =
     (next_block s,
      s\<lparr>heap := (heap s)(next_block s \<mapsto> map uninit [0..<k]), next_block := Suc (next_block s)\<rparr>)"

text \<open>\<^verbatim>\<open>VG_(memcpy)(dst, src, sizeof(LinExpr)*k)\<close> on the starts of two blocks.\<close>

definition VG_memcpy :: "block \<Rightarrow> block \<Rightarrow> nat \<Rightarrow> dg_state \<Rightarrow> dg_state option" where
  "VG_memcpy dst src k s =
     (case (heap s dst, heap s src) of
        (Some d, Some c) \<Rightarrow>
          if k \<le> length d \<and> k \<le> length c \<and> dst \<noteq> src
          then Some (s\<lparr>heap := (heap s)(dst \<mapsto> take k c @ drop k d)\<rparr>)
          else None
      | _ \<Rightarrow> None)"

text \<open>\<^verbatim>\<open>VG_(free)(p)\<close>; freeing the null pointer does nothing.\<close>

definition VG_free :: "block option \<Rightarrow> dg_state \<Rightarrow> dg_state option" where
  "VG_free p s =
     (case p of
        None \<Rightarrow> Some s
      | Some b \<Rightarrow> (case heap s b of None \<Rightarrow> None | Some _ \<Rightarrow> Some (s\<lparr>heap := (heap s)(b := None)\<rparr>)))"

text \<open>
  \<^verbatim>\<open>
  LinExpr* newLinExpr(void){
    if(n_linexpr==max_linexpr){
       LinExpr* new_buffer_linexpr = VG_(malloc)("newLinExpr",sizeof(LinExpr)*(2*n_linexpr+1));
       if(n_linexpr>0) VG_(memcpy)(new_buffer_linexpr,buffer_linexpr,sizeof(LinExpr)*n_linexpr);
       VG_(free)(buffer_linexpr);
       buffer_linexpr = new_buffer_linexpr;
       max_linexpr = 2*max_linexpr+1;
    }
    buffer_linexpr[n_linexpr].ndep = 0;
    return &buffer_linexpr[n_linexpr++];
  }
  \<close>
  The two counters are C ints. Where \<^verbatim>\<open>2*n_linexpr+1\<close> leaves the range of an int, or
  is not a positive number of elements, the growth has no result.
\<close>

definition grow_buffer :: "(nat \<Rightarrow> LinExpr) \<Rightarrow> dg_state \<Rightarrow> dg_state option" where
  "grow_buffer uninit s =
     (if 2 * n_linexpr s + 1 \<le> 0 \<or> INT_MAX < 2 * n_linexpr s + 1 then None
      else do {
        let (new_buffer_linexpr, s1) = VG_malloc uninit (nat (2 * n_linexpr s + 1)) s;
        s2 \<leftarrow> (if n_linexpr s1 > 0
               then (case buffer_linexpr s1 of
                       None \<Rightarrow> None
                     | Some b \<Rightarrow> VG_memcpy new_buffer_linexpr b (nat (n_linexpr s1)) s1)
               else Some s1);
        s3 \<leftarrow> VG_free (buffer_linexpr s2) s2;
        Some (s3\<lparr>buffer_linexpr := Some new_buffer_linexpr,
                 max_linexpr := 2 * max_linexpr s3 + 1\<rparr>)
      })"

definition newLinExpr :: "(nat \<Rightarrow> LinExpr) \<Rightarrow> dg_state \<Rightarrow> (LinExpr_ptr \<times> dg_state) option" where
  "newLinExpr uninit s = do {
     s1 \<leftarrow> (if n_linexpr s = max_linexpr s then grow_buffer uninit s else Some s);
     b \<leftarrow> buffer_linexpr s1;
     let p = (b, n_linexpr s1);
     e \<leftarrow> rd s1 p;
     s2 \<leftarrow> wr s1 p (e\<lparr>ndep := 0\<rparr>);
     Some (p, s2\<lparr>n_linexpr := n_linexpr s2 + 1\<rparr>)
   }"

text \<open>\<^verbatim>\<open>void deleteAllLinExpr(){ n_linexpr = 0; }\<close>\<close>

definition deleteAllLinExpr :: "dg_state \<Rightarrow> dg_state" where
  "deleteAllLinExpr s = s\<lparr>n_linexpr := 0\<rparr>"

text \<open>The state of the globals when the program starts.\<close>

definition initial_state :: dg_state where
  "initial_state =
     \<lparr>heap = (\<lambda>_. None), next_block = 0, buffer_linexpr = None, n_linexpr = 0, max_linexpr = 0\<rparr>"

text \<open>The element at index \<open>i\<close> of the buffer, if the buffer has one.\<close>

definition buffer_at :: "dg_state \<Rightarrow> int \<Rightarrow> LinExpr option" where
  "buffer_at s i = (case buffer_linexpr s of None \<Rightarrow> None | Some b \<Rightarrow> rd s (b, i))"

text \<open>The number of elements the buffer has room for.\<close>

definition buffer_capacity :: "dg_state \<Rightarrow> nat" where
  "buffer_capacity s =
     (case buffer_linexpr s of
        None \<Rightarrow> 0
      | Some b \<Rightarrow> (case heap s b of None \<Rightarrow> 0 | Some arr \<Rightarrow> length arr))"

text \<open>
  The states the buffer functions keep the program in: the allocator's next block and
  every later one are unused, the count is between 0 and the capacity, and the buffer
  is the null pointer with capacity 0 or a live block of \<^verbatim>\<open>max_linexpr\<close> elements.
\<close>

definition state_wf :: "dg_state \<Rightarrow> bool" where
  "state_wf s \<longleftrightarrow>
     (\<forall>b. next_block s \<le> b \<longrightarrow> heap s b = None) \<and>
     0 \<le> n_linexpr s \<and> n_linexpr s \<le> max_linexpr s \<and>
     (case buffer_linexpr s of
        None \<Rightarrow> max_linexpr s = 0
      | Some b \<Rightarrow> (case heap s b of None \<Rightarrow> False | Some arr \<Rightarrow> int (length arr) = max_linexpr s))"

text \<open>
  Field accesses through a pointer: \<^verbatim>\<open>p->ndep\<close>, \<^verbatim>\<open>p->value\<close>, \<^verbatim>\<open>p->identifier[i]\<close> and
  \<^verbatim>\<open>p->jacobian[i]\<close>, read and written. The arrays have \<open>MAX_NDEP\<close> slots.
\<close>

definition in_array :: "int \<Rightarrow> bool" where
  "in_array i \<longleftrightarrow> 0 \<le> i \<and> i < MAX_NDEP"

definition read_ndep :: "dg_state \<Rightarrow> LinExpr_ptr \<Rightarrow> int option" where
  "read_ndep s p = map_option ndep (rd s p)"

definition read_value :: "dg_state \<Rightarrow> LinExpr_ptr \<Rightarrow> Scalar option" where
  "read_value s p = map_option val (rd s p)"

definition read_identifier :: "dg_state \<Rightarrow> LinExpr_ptr \<Rightarrow> int \<Rightarrow> Identifier option" where
  "read_identifier s p i =
     (case rd s p of None \<Rightarrow> None
      | Some e \<Rightarrow> if in_array i then Some (identifier e (nat i)) else None)"

definition read_jacobian :: "dg_state \<Rightarrow> LinExpr_ptr \<Rightarrow> int \<Rightarrow> Scalar option" where
  "read_jacobian s p i =
     (case rd s p of None \<Rightarrow> None
      | Some e \<Rightarrow> if in_array i then Some (jacobian e (nat i)) else None)"

definition write_ndep :: "LinExpr_ptr \<Rightarrow> int \<Rightarrow> dg_state \<Rightarrow> dg_state option" where
  "write_ndep p n s = (case rd s p of None \<Rightarrow> None | Some e \<Rightarrow> wr s p (e\<lparr>ndep := n\<rparr>))"

definition write_value :: "LinExpr_ptr \<Rightarrow> Scalar \<Rightarrow> dg_state \<Rightarrow> dg_state option" where
  "write_value p v s = (case rd s p of None \<Rightarrow> None | Some e \<Rightarrow> wr s p (e\<lparr>val := v\<rparr>))"

definition write_identifier :: "LinExpr_ptr \<Rightarrow> int \<Rightarrow> Identifier \<Rightarrow> dg_state \<Rightarrow> dg_state option" where
  "write_identifier p i v s =
     (case rd s p of None \<Rightarrow> None
      | Some e \<Rightarrow>
          if in_array i then wr s p (e\<lparr>identifier := (identifier e)(nat i := v)\<rparr>) else None)"

definition write_jacobian :: "LinExpr_ptr \<Rightarrow> int \<Rightarrow> Scalar \<Rightarrow> dg_state \<Rightarrow> dg_state option" where
  "write_jacobian p i v s =
     (case rd s p of None \<Rightarrow> None
      | Some e \<Rightarrow>
          if in_array i then wr s p (e\<lparr>jacobian := (jacobian e)(nat i := v)\<rparr>) else None)"

text \<open>
  \<^verbatim>\<open>
  LinExpr* linearCombinationOfDependencies(Scalar k, LinExpr* a, Scalar l, LinExpr* b ){
    LinExpr* res = newLinExpr();
    res->ndep = a->ndep + b->ndep;
    for(int i=0; i<a->ndep; i++){
      res->identifier[i] = a->identifier[i];
      res->jacobian[i] = k*a->jacobian[i];
    }
    for(int i=0; i<b->ndep; i++){
      res->identifier[a->ndep+i] = b->identifier[i];
      res->jacobian[a->ndep+i] = l*b->jacobian[i];
    }
    return res;
  }
  \<close>
  \<open>lc_body k src res j i\<close> is one round of either loop: slot \<open>i\<close> of \<open>src\<close> goes to slot
  \<open>j\<close> of \<open>res\<close>, the jacobian scaled by \<open>k\<close>. The loops read their bound from memory in
  every round; they end because a round does not write an \<^verbatim>\<open>ndep\<close>.
\<close>

definition lc_body ::
  "Scalar \<Rightarrow> LinExpr_ptr \<Rightarrow> LinExpr_ptr \<Rightarrow> int \<Rightarrow> int \<Rightarrow> dg_state \<Rightarrow> dg_state option" where
  "lc_body k src res j i s = do {
     x \<leftarrow> read_identifier s src i;
     s1 \<leftarrow> write_identifier res j x s;
     y \<leftarrow> read_jacobian s1 src i;
     write_jacobian res j (k * y) s1
   }"

lemma rd_wr: "wr s p e = Some s' \<Longrightarrow> rd s' q = (if q = p then Some e else rd s q)"
  by (cases p; cases q)
     (auto simp: wr_def rd_def split: option.splits if_splits)

lemma read_ndep_write_identifier:
  "write_identifier p i v s = Some s' \<Longrightarrow> read_ndep s' q = read_ndep s q"
  by (auto simp: write_identifier_def read_ndep_def rd_wr split: option.splits if_splits)

lemma read_ndep_write_jacobian:
  "write_jacobian p i v s = Some s' \<Longrightarrow> read_ndep s' q = read_ndep s q"
  by (auto simp: write_jacobian_def read_ndep_def rd_wr split: option.splits if_splits)

lemma read_ndep_lc_body:
  "lc_body k src res j i s = Some s' \<Longrightarrow> read_ndep s' q = read_ndep s q"
  by (auto simp: lc_body_def read_ndep_write_identifier read_ndep_write_jacobian
           split: Option.bind_splits)

function lc_loop1 :: "Scalar \<Rightarrow> LinExpr_ptr \<Rightarrow> LinExpr_ptr \<Rightarrow> int \<Rightarrow> dg_state \<Rightarrow> dg_state option" where
  "lc_loop1 k a res i s =
     (case read_ndep s a of
        None \<Rightarrow> None
      | Some n \<Rightarrow>
          if i < n
          then (case lc_body k a res i i s of
                  None \<Rightarrow> None
                | Some s' \<Rightarrow> lc_loop1 k a res (i + 1) s')
          else Some s)"
  by pat_completeness auto
termination
  by (relation "measure (\<lambda>(k, a, res, i, s). nat (the (read_ndep s a) - i))")
     (auto simp: read_ndep_lc_body)

function lc_loop2 ::
  "Scalar \<Rightarrow> LinExpr_ptr \<Rightarrow> LinExpr_ptr \<Rightarrow> LinExpr_ptr \<Rightarrow> int \<Rightarrow> dg_state \<Rightarrow> dg_state option" where
  "lc_loop2 l a b res i s =
     (case read_ndep s b of
        None \<Rightarrow> None
      | Some n \<Rightarrow>
          if i < n
          then (case read_ndep s a of
                  None \<Rightarrow> None
                | Some na \<Rightarrow>
                    (case lc_body l b res (na + i) i s of
                       None \<Rightarrow> None
                     | Some s' \<Rightarrow> lc_loop2 l a b res (i + 1) s'))
          else Some s)"
  by pat_completeness auto
termination
  by (relation "measure (\<lambda>(l, a, b, res, i, s). nat (the (read_ndep s b) - i))")
     (auto simp: read_ndep_lc_body)

definition linearCombinationOfDependencies ::
  "(nat \<Rightarrow> LinExpr) \<Rightarrow> Scalar \<Rightarrow> LinExpr_ptr \<Rightarrow> Scalar \<Rightarrow> LinExpr_ptr \<Rightarrow> dg_state \<Rightarrow>
   (LinExpr_ptr \<times> dg_state) option" where
  "linearCombinationOfDependencies uninit k a l b s = do {
     (res, s1) \<leftarrow> newLinExpr uninit s;
     na \<leftarrow> read_ndep s1 a;
     nb \<leftarrow> read_ndep s1 b;
     s2 \<leftarrow> write_ndep res (na + nb) s1;
     s3 \<leftarrow> lc_loop1 k a res 0 s2;
     s4 \<leftarrow> lc_loop2 l a b res 0 s3;
     Some (res, s4)
   }"

text \<open>
  \<^verbatim>\<open>
  LinExpr* addLinExpr(LinExpr* a, LinExpr* b){
    LinExpr* sum = linearCombinationOfDependencies(1.,a,1.,b);
    sum->value = a->value + b->value;
    return sum;
  }
  LinExpr* subLinExpr(LinExpr* a, LinExpr* b){
    LinExpr* difference = linearCombinationOfDependencies(1.,a,-1.,b);
    difference->value = a->value - b->value;
    return difference;
  }
  LinExpr* mulLinExpr(LinExpr* a, LinExpr* b){
    LinExpr* product = linearCombinationOfDependencies(b->value,a,a->value,b);
    product->value = a->value * b->value;
    return product;
  }
  LinExpr* divLinExpr(LinExpr* a, LinExpr* b){
    LinExpr* quotient = linearCombinationOfDependencies(-1./b->value,a,a->value/(b->value*b->value),b);
    quotient->value = a->value / b->value;
    return quotient;
  }
  \<close>
\<close>

definition addLinExpr :: "(nat \<Rightarrow> LinExpr) \<Rightarrow> LinExpr_ptr \<Rightarrow> LinExpr_ptr \<Rightarrow> dg_state \<Rightarrow> (LinExpr_ptr \<times> dg_state) option" where
  "addLinExpr uninit a b s = do {
     (sum, s1) \<leftarrow> linearCombinationOfDependencies uninit 1 a 1 b s;
     va \<leftarrow> read_value s1 a;
     vb \<leftarrow> read_value s1 b;
     s2 \<leftarrow> write_value sum (va + vb) s1;
     Some (sum, s2)
   }"

definition subLinExpr :: "(nat \<Rightarrow> LinExpr) \<Rightarrow> LinExpr_ptr \<Rightarrow> LinExpr_ptr \<Rightarrow> dg_state \<Rightarrow> (LinExpr_ptr \<times> dg_state) option" where
  "subLinExpr uninit a b s = do {
     (difference, s1) \<leftarrow> linearCombinationOfDependencies uninit 1 a (- 1) b s;
     va \<leftarrow> read_value s1 a;
     vb \<leftarrow> read_value s1 b;
     s2 \<leftarrow> write_value difference (va - vb) s1;
     Some (difference, s2)
   }"

definition mulLinExpr :: "(nat \<Rightarrow> LinExpr) \<Rightarrow> LinExpr_ptr \<Rightarrow> LinExpr_ptr \<Rightarrow> dg_state \<Rightarrow> (LinExpr_ptr \<times> dg_state) option" where
  "mulLinExpr uninit a b s = do {
     vb0 \<leftarrow> read_value s b;
     va0 \<leftarrow> read_value s a;
     (product, s1) \<leftarrow> linearCombinationOfDependencies uninit vb0 a va0 b s;
     va \<leftarrow> read_value s1 a;
     vb \<leftarrow> read_value s1 b;
     s2 \<leftarrow> write_value product (va * vb) s1;
     Some (product, s2)
   }"

definition divLinExpr :: "(nat \<Rightarrow> LinExpr) \<Rightarrow> LinExpr_ptr \<Rightarrow> LinExpr_ptr \<Rightarrow> dg_state \<Rightarrow> (LinExpr_ptr \<times> dg_state) option" where
  "divLinExpr uninit a b s = do {
     vb0 \<leftarrow> read_value s b;
     va0 \<leftarrow> read_value s a;
     (quotient, s1) \<leftarrow>
        linearCombinationOfDependencies uninit (- 1 / vb0) a (va0 / (vb0 * vb0)) b s;
     va \<leftarrow> read_value s1 a;
     vb \<leftarrow> read_value s1 b;
     s2 \<leftarrow> write_value quotient (va / vb) s1;
     Some (quotient, s2)
   }"

text \<open>
  \<^verbatim>\<open>
  /*! Sort tuples (identifier,jacobian) in-place within interval [from,to).
   *  \param[in,out] a - Linearized expression.
   *  \param[in] from - First index in sorted interval.
   *  \param[in] to - First index behind sorted interval.
   *  \param[in] tmp - May use the section [from,to) of this buffer.
   */
  void mergesortLinExpr(LinExpr* a, int from, int to, LinExpr* tmp){
    if(to-from<=1) return;
    int sep = (from+to)/2;
    mergesortLinExpr(a,from,sep,tmp);
    mergesortLinExpr(a,sep,to,tmp);
    int from_m = from, sep_m = sep;
    for(int i=from; i<to; i++){
      if(sep_m>=to || (from_m<sep && a->identifier[from_m] < a->identifier[sep_m]) ){
        tmp[i] = a[from_m++];
      } else {
        tmp[i] = a[sep_m++];
      }
    }
    for(int i=from; i<to; i++){
      a[i] = tmp[i];
    }
  }
  \<close>
  \<^verbatim>\<open>a\<close> and \<^verbatim>\<open>tmp\<close> are pointers to \<^verbatim>\<open>LinExpr\<close>, so \<^verbatim>\<open>a[from_m]\<close> and \<^verbatim>\<open>tmp[i]\<close> are the
  whole structures \<open>from_m\<close> and \<open>i\<close> elements behind them, while the comparison reads
  the identifiers of the structure \<^verbatim>\<open>a\<close> points to. C's division of ints truncates
  (\<open>sdiv\<close>).
\<close>

function merge_loop ::
  "LinExpr_ptr \<Rightarrow> int \<Rightarrow> int \<Rightarrow> LinExpr_ptr \<Rightarrow> int \<Rightarrow> int \<Rightarrow> int \<Rightarrow> dg_state \<Rightarrow> dg_state option" where
  "merge_loop a sep to tmp i from_m sep_m s =
     (if i < to then
        (case (if sep_m \<ge> to then Some True
               else if from_m < sep then
                 (case read_identifier s a from_m of
                    None \<Rightarrow> None
                  | Some x \<Rightarrow>
                      (case read_identifier s a sep_m of
                         None \<Rightarrow> None
                       | Some y \<Rightarrow> Some (x < y)))
               else Some False) of
           None \<Rightarrow> None
         | Some True \<Rightarrow>
             (case rd s (ptr_add a from_m) of
                None \<Rightarrow> None
              | Some e \<Rightarrow>
                  (case wr s (ptr_add tmp i) e of
                     None \<Rightarrow> None
                   | Some s' \<Rightarrow> merge_loop a sep to tmp (i + 1) (from_m + 1) sep_m s'))
         | Some False \<Rightarrow>
             (case rd s (ptr_add a sep_m) of
                None \<Rightarrow> None
              | Some e \<Rightarrow>
                  (case wr s (ptr_add tmp i) e of
                     None \<Rightarrow> None
                   | Some s' \<Rightarrow> merge_loop a sep to tmp (i + 1) from_m (sep_m + 1) s')))
      else Some s)"
  by pat_completeness auto
termination
  by (relation "measure (\<lambda>(a, sep, to, tmp, i, from_m, sep_m, s). nat (to - i))") auto

function copy_back :: "LinExpr_ptr \<Rightarrow> LinExpr_ptr \<Rightarrow> int \<Rightarrow> int \<Rightarrow> dg_state \<Rightarrow> dg_state option" where
  "copy_back a tmp to i s =
     (if i < to then
        (case rd s (ptr_add tmp i) of
           None \<Rightarrow> None
         | Some e \<Rightarrow>
             (case wr s (ptr_add a i) e of
                None \<Rightarrow> None
              | Some s' \<Rightarrow> copy_back a tmp to (i + 1) s'))
      else Some s)"
  by pat_completeness auto
termination
  by (relation "measure (\<lambda>(a, tmp, to, i, s). nat (to - i))") auto

lemma sdiv_2_between:
  assumes "1 < to - (from :: int)"
  shows "from < (from + to) sdiv 2" "(from + to) sdiv 2 < to"
  using assms by (auto simp: signed_divide_int_def sgn_if abs_if)

function mergesortLinExpr ::
  "LinExpr_ptr \<Rightarrow> int \<Rightarrow> int \<Rightarrow> LinExpr_ptr \<Rightarrow> dg_state \<Rightarrow> dg_state option" where
  "mergesortLinExpr a from to tmp s =
     (if to - from \<le> 1 then Some s
      else
        (case mergesortLinExpr a from ((from + to) sdiv 2) tmp s of
           None \<Rightarrow> None
         | Some s1 \<Rightarrow>
             (case mergesortLinExpr a ((from + to) sdiv 2) to tmp s1 of
                None \<Rightarrow> None
              | Some s2 \<Rightarrow>
                  (case merge_loop a ((from + to) sdiv 2) to tmp from from ((from + to) sdiv 2) s2 of
                     None \<Rightarrow> None
                   | Some s3 \<Rightarrow> copy_back a tmp to from s3))))"
  by pat_completeness auto
termination
  by (relation "measure (\<lambda>(a, from, to, tmp, s). nat (to - from))")
     (use sdiv_2_between in \<open>auto simp: not_le\<close>)

text \<open>
  \<^verbatim>\<open>
  /*! In-place normalization of linearized expression,
   *  i.e. making identifiers occur only once.
   *  \param[in,out] a - Linearized expression, is normalized.
   */
  void normalizeLinExpr(LinExpr* a){
    LinExpr* ret = newLinExpr();
    mergesortLinExpr(a,0,a->ndep,ret);
    ret->ndep = 0;
    ret->value = a->value;
    for(int i=0; i<a->ndep; ){
      Identifier id = a->identifier[i];
      Scalar jacobian_sum = a->jacobian[i];
      i++;
      while(a->identifier[i]==id && i<a->ndep){
        jacobian_sum += a->jacobian[i];
        i++;
      }
      ret->identifier[ret->ndep] = id;
      ret->jacobian[ret->ndep] = jacobian_sum;
      ret->ndep++;
    }
    *a = *ret;
  }
  \<close>
  \<open>sum_equal\<close> is the inner loop, \<open>append_dependency\<close> the three assignments to
  \<^verbatim>\<open>ret\<close> that end a round of the outer loop, \<open>normalize_loop\<close> the outer loop. Every
  round of the outer loop adds one to \<^verbatim>\<open>ret->ndep\<close> after writing slot \<^verbatim>\<open>ret->ndep\<close>,
  which must be one of the \<open>MAX_NDEP\<close> slots: this is why the model of the loop ends
  even where \<^verbatim>\<open>ret\<close> and \<^verbatim>\<open>a\<close> are the same structure.
\<close>

function sum_equal ::
  "LinExpr_ptr \<Rightarrow> Identifier \<Rightarrow> int \<Rightarrow> Scalar \<Rightarrow> dg_state \<Rightarrow> (int \<times> Scalar) option" where
  "sum_equal a id' i jacobian_sum s =
     (case read_identifier s a i of
        None \<Rightarrow> None
      | Some x \<Rightarrow>
          (case read_ndep s a of
             None \<Rightarrow> None
           | Some n \<Rightarrow>
               if x = id' \<and> i < n
               then (case read_jacobian s a i of
                       None \<Rightarrow> None
                     | Some y \<Rightarrow> sum_equal a id' (i + 1) (jacobian_sum + y) s)
               else Some (i, jacobian_sum)))"
  by pat_completeness auto
termination
  by (relation "measure (\<lambda>(a, id', i, jacobian_sum, s). nat (the (read_ndep s a) - i))") auto

definition append_dependency :: "LinExpr_ptr \<Rightarrow> Identifier \<Rightarrow> Scalar \<Rightarrow> dg_state \<Rightarrow> dg_state option" where
  "append_dependency ret id' jacobian_sum s = do {
     n \<leftarrow> read_ndep s ret;
     s1 \<leftarrow> write_identifier ret n id' s;
     n1 \<leftarrow> read_ndep s1 ret;
     s2 \<leftarrow> write_jacobian ret n1 jacobian_sum s1;
     n2 \<leftarrow> read_ndep s2 ret;
     write_ndep ret (n2 + 1) s2
   }"

lemma read_ndep_write_ndep:
  "write_ndep p n s = Some s' \<Longrightarrow> read_ndep s' p = Some n"
  by (auto simp: write_ndep_def read_ndep_def rd_wr split: option.splits)

lemma append_dependency_ndep:
  assumes "append_dependency ret id' jacobian_sum s = Some s'"
  shows "\<exists>n. read_ndep s ret = Some n \<and> n < MAX_NDEP \<and> read_ndep s' ret = Some (n + 1)"
proof -
  from assms obtain n s1 n1 s2 n2 where
    n: "read_ndep s ret = Some n" and s1: "write_identifier ret n id' s = Some s1"
    and n1: "read_ndep s1 ret = Some n1" and s2: "write_jacobian ret n1 jacobian_sum s1 = Some s2"
    and n2: "read_ndep s2 ret = Some n2" and s': "write_ndep ret (n2 + 1) s2 = Some s'"
    by (auto simp: append_dependency_def split: Option.bind_splits)
  have "n < MAX_NDEP" using s1
    by (auto simp: write_identifier_def in_array_def split: option.splits if_splits)
  moreover have "n1 = n" using read_ndep_write_identifier [OF s1, of ret] n n1 by simp
  moreover have "n2 = n1" using read_ndep_write_jacobian [OF s2, of ret] n1 n2 by simp
  ultimately show ?thesis using n read_ndep_write_ndep [OF s'] by simp
qed

function normalize_loop :: "LinExpr_ptr \<Rightarrow> LinExpr_ptr \<Rightarrow> int \<Rightarrow> dg_state \<Rightarrow> dg_state option" where
  "normalize_loop a ret i s =
     (case read_ndep s a of
        None \<Rightarrow> None
      | Some n \<Rightarrow>
          if i < n then
            (case read_identifier s a i of
               None \<Rightarrow> None
             | Some id' \<Rightarrow>
                 (case read_jacobian s a i of
                    None \<Rightarrow> None
                  | Some j0 \<Rightarrow>
                      (case sum_equal a id' (i + 1) j0 s of
                         None \<Rightarrow> None
                       | Some (i', jacobian_sum) \<Rightarrow>
                           (case append_dependency ret id' jacobian_sum s of
                              None \<Rightarrow> None
                            | Some s' \<Rightarrow> normalize_loop a ret i' s'))))
          else Some s)"
  by pat_completeness auto
termination
  by (relation "measure (\<lambda>(a, ret, i, s). nat (MAX_NDEP - the (read_ndep s ret)))")
     (auto dest!: append_dependency_ndep)

definition normalizeLinExpr :: "(nat \<Rightarrow> LinExpr) \<Rightarrow> LinExpr_ptr \<Rightarrow> dg_state \<Rightarrow> dg_state option" where
  "normalizeLinExpr uninit a s = do {
     (ret, s1) \<leftarrow> newLinExpr uninit s;
     n \<leftarrow> read_ndep s1 a;
     s2 \<leftarrow> mergesortLinExpr a 0 n ret s1;
     s3 \<leftarrow> write_ndep ret 0 s2;
     v \<leftarrow> read_value s3 a;
     s4 \<leftarrow> write_value ret v s3;
     s5 \<leftarrow> normalize_loop a ret 0 s4;
     e \<leftarrow> rd s5 ret;
     wr s5 a e
   }"

text \<open>The dependency list of a linearized expression: its first \<^verbatim>\<open>ndep\<close> slots.\<close>

definition deps :: "LinExpr \<Rightarrow> (Identifier \<times> Scalar) list" where
  "deps e = map (\<lambda>i. (identifier e i, jacobian e i)) [0..<nat (ndep e)]"

text \<open>A full buffer of one element, for evaluating the functions.\<close>

definition example_LinExpr :: LinExpr where
  "example_LinExpr = \<lparr>val = 5, ndep = 1, identifier = (\<lambda>_. 7), jacobian = (\<lambda>_. 1)\<rparr>"

definition example_full_state :: dg_state where
  "example_full_state =
     \<lparr>heap = (\<lambda>_. None)(0 \<mapsto> [example_LinExpr]), next_block = 1, buffer_linexpr = Some 0,
      n_linexpr = 1, max_linexpr = 1\<rparr>"

text \<open>
  Two buffers with room for more: one holding \<open>a\<close> (value 1, depending on 7 with
  jacobian 1) and \<open>b\<close> (value 2, depending on 8 with jacobian 1), one holding an
  expression with the dependencies \<open>(2, 10), (1, 20)\<close>. The unused elements hold
  \<open>example_unused\<close>.
\<close>

definition example_a :: LinExpr where
  "example_a = \<lparr>val = 1, ndep = 1, identifier = (\<lambda>_. 0)(0 := 7), jacobian = (\<lambda>_. 0)(0 := 1)\<rparr>"

definition example_b :: LinExpr where
  "example_b = \<lparr>val = 2, ndep = 1, identifier = (\<lambda>_. 0)(0 := 8), jacobian = (\<lambda>_. 0)(0 := 1)\<rparr>"

definition example_unused :: LinExpr where
  "example_unused = \<lparr>val = 0, ndep = 0, identifier = (\<lambda>_. 0), jacobian = (\<lambda>_. 0)\<rparr>"

definition example_ab_state :: dg_state where
  "example_ab_state =
     \<lparr>heap = (\<lambda>_. None)(0 \<mapsto> [example_a, example_b, example_unused]), next_block = 1,
      buffer_linexpr = Some 0, n_linexpr = 2, max_linexpr = 3\<rparr>"

definition example_unsorted :: LinExpr where
  "example_unsorted =
     \<lparr>val = 5, ndep = 2, identifier = (\<lambda>_. 0)(0 := 2, 1 := 1),
      jacobian = (\<lambda>_. 0)(0 := 10, 1 := 20)\<rparr>"

definition example_unsorted_state :: dg_state where
  "example_unsorted_state =
     \<lparr>heap = (\<lambda>_. None)(0 \<mapsto> [example_unsorted, example_unused, example_unused]),
      next_block = 1, buffer_linexpr = Some 0, n_linexpr = 1, max_linexpr = 3\<rparr>"

section \<open>Identifiers (dg\_bar.c)\<close>

text \<open>
  \<^verbatim>\<open>
  static ULong next_identifier = 1;
  ULong newid() { return next_identifier++; }
  \<close>
  \<^verbatim>\<open>ULong\<close> is an unsigned 64-bit integer; its increment wraps around.
\<close>

type_synonym ULong = "64 word"

definition next_identifier_init :: ULong where
  "next_identifier_init = 1"

definition newid :: "ULong \<Rightarrow> ULong \<times> ULong" where
  "newid next_identifier = (next_identifier, next_identifier + 1)"

text \<open>What the \<open>k\<close>-th call of \<^verbatim>\<open>newid\<close> since the program started returns (\<open>k \<ge> 1\<close>).\<close>

definition newid_call :: "nat \<Rightarrow> ULong" where
  "newid_call k = fst (newid (((\<lambda>c. snd (newid c)) ^^ (k - 1)) next_identifier_init))"

section \<open>The tape (bar/dg\_bar\_tape.c, not among the sources)\<close>

text \<open>
  Modelled from the spec: \<^verbatim>\<open>tapeAddStatement\<close> and
  \<^verbatim>\<open>tapeAddStatement_noActivityAnalysis\<close>, which \<^verbatim>\<open>dg_handle_client_request\<close> and
  \<^verbatim>\<open>dg_bar_writeToTape_call\<close> call and \<^verbatim>\<open>bar/dg_bar_tape.c\<close> defines. The spec: a tape
  entry is two operand indices and two partial derivatives; the tape is an ordered,
  append-only sequence of entries; indices are assigned sequentially starting at 1 and
  index 0 is reserved. Recording: "If both d1 and d2 are exactly zero and both operand
  indices are 0, return 0 without appending. A non-pruning variant always appends."
  The index of an appended entry is its position in the tape, counted from 1.
\<close>

record TapeEntry =
  index1 :: nat
  index2 :: nat
  diff1 :: real
  diff2 :: real

type_synonym tape = "TapeEntry list"

definition tapeAddStatement_noActivityAnalysis ::
  "nat \<Rightarrow> nat \<Rightarrow> real \<Rightarrow> real \<Rightarrow> tape \<Rightarrow> nat \<times> tape" where
  "tapeAddStatement_noActivityAnalysis i1 i2 d1 d2 t =
     (length t + 1, t @ [\<lparr>index1 = i1, index2 = i2, diff1 = d1, diff2 = d2\<rparr>])"

definition tapeAddStatement :: "nat \<Rightarrow> nat \<Rightarrow> real \<Rightarrow> real \<Rightarrow> tape \<Rightarrow> nat \<times> tape" where
  "tapeAddStatement i1 i2 d1 d2 t =
     (if d1 = 0 \<and> d2 = 0 \<and> i1 = 0 \<and> i2 = 0 then (0, t)
      else tapeAddStatement_noActivityAnalysis i1 i2 d1 d2 t)"

section \<open>The intermediate representation (VEX IR, as the instrumentation uses it)\<close>

text \<open>
  The instrumentation builds and inspects VEX IR trees. The IR types are VEX's; the
  model declares the part of them the instrumentation reads or builds.
  \<^verbatim>\<open>IROp\<close> is an enumeration of more than a thousand operators: an operator is
  represented by the name of its enumerator without the prefix \<^verbatim>\<open>Iop_\<close>, so
  \<^verbatim>\<open>Iop_DivF64\<close> is \<open>Iop ''DivF64''\<close>, and the token pasting \<^verbatim>\<open>Iop_##Op##suffix\<close> of
  the macros is the concatenation of the names.
\<close>

datatype IRType =
    Ity_INVALID | Ity_I1 | Ity_I8 | Ity_I16 | Ity_I32 | Ity_I64 | Ity_I128
  | Ity_F16 | Ity_F32 | Ity_F64 | Ity_D32 | Ity_D64 | Ity_D128 | Ity_F128
  | Ity_V128 | Ity_V256

datatype IROp = Iop string

text \<open>
  \<^verbatim>\<open>IRTemp\<close> and \<^verbatim>\<open>UInt\<close> are unsigned 32-bit integers, \<^verbatim>\<open>Int\<close> is a C int; an
  \<^verbatim>\<open>Int\<close> is modelled by its value, without a bound.
\<close>

type_synonym IRTemp = "32 word"

definition IRTemp_INVALID :: IRTemp where
  "IRTemp_INVALID = 0xFFFFFFFF"

text \<open>Constants carry their tag; a floating-point constant is given by its value.\<close>

datatype IRConst =
    Ico_U1 bool | Ico_U8 "8 word" | Ico_U16 "16 word" | Ico_U32 "32 word" | Ico_U64 "64 word"
  | Ico_U128 "16 word"
  | Ico_F32 real | Ico_F32i "32 word" | Ico_F64 real | Ico_F64i "64 word"
  | Ico_V128 "16 word" | Ico_V256 "32 word"

record IRRegArray =
  base :: int
  elemTy :: IRType
  nElems :: int

datatype IREndness = Iend_LE | Iend_BE

datatype IRExpr =
    Iex_Binder int
  | Iex_Get int IRType
  | Iex_GetI IRRegArray IRExpr int
  | Iex_RdTmp IRTemp
  | Iex_Qop IROp IRExpr IRExpr IRExpr IRExpr
  | Iex_Triop IROp IRExpr IRExpr IRExpr
  | Iex_Binop IROp IRExpr IRExpr
  | Iex_Unop IROp IRExpr
  | Iex_Load IREndness IRType IRExpr
  | Iex_Const IRConst
  | Iex_ITE IRExpr IRExpr IRExpr
  | Iex_CCall string IRType "IRExpr list"
  | Iex_VECRET
  | Iex_GSPTR

text \<open>
  A dirty helper call: the name of the callee, its guard, its arguments and the
  temporary that receives the result (\<open>IRTemp_INVALID\<close> when there is none).
  \<^verbatim>\<open>unsafeIRDirty_0_N\<close> and \<^verbatim>\<open>unsafeIRDirty_1_N\<close> build calls whose guard is the
  constant true.
\<close>

record IRDirty =
  cee :: string
  guard :: IRExpr
  args :: "IRExpr list"
  tmp :: IRTemp

definition unsafeIRDirty_0_N :: "string \<Rightarrow> IRExpr list \<Rightarrow> IRDirty" where
  "unsafeIRDirty_0_N name as =
     \<lparr>cee = name, guard = Iex_Const (Ico_U1 True), args = as, tmp = IRTemp_INVALID\<rparr>"

definition unsafeIRDirty_1_N :: "IRTemp \<Rightarrow> string \<Rightarrow> IRExpr list \<Rightarrow> IRDirty" where
  "unsafeIRDirty_1_N dst name as =
     \<lparr>cee = name, guard = Iex_Const (Ico_U1 True), args = as, tmp = dst\<rparr>"

record IRPutI =
  putI_descr :: IRRegArray
  putI_ix :: IRExpr
  putI_bias :: int
  putI_data :: IRExpr

record IRStoreG =
  sg_end :: IREndness
  sg_addr :: IRExpr
  sg_data :: IRExpr
  sg_guard :: IRExpr

datatype IRLoadGOp =
    ILGop_IdentV128 | ILGop_Ident64 | ILGop_Ident32
  | ILGop_16Uto32 | ILGop_16Sto32 | ILGop_8Uto32 | ILGop_8Sto32

record IRLoadG =
  lg_end :: IREndness
  lg_cvt :: IRLoadGOp
  lg_dst :: IRTemp
  lg_addr :: IRExpr
  lg_alt :: IRExpr
  lg_guard :: IRExpr

record IRCAS =
  oldHi :: IRTemp
  oldLo :: IRTemp
  cas_end :: IREndness
  cas_addr :: IRExpr
  expdHi :: "IRExpr option"
  expdLo :: IRExpr
  dataHi :: "IRExpr option"
  dataLo :: IRExpr

datatype IRStmt =
    Ist_NoOp
  | Ist_IMark "64 word" "32 word" "8 word"
  | Ist_AbiHint IRExpr int IRExpr
  | Ist_Put int IRExpr
  | Ist_PutI IRPutI
  | Ist_WrTmp IRTemp IRExpr
  | Ist_Store IREndness IRExpr IRExpr
  | Ist_LoadG IRLoadG
  | Ist_StoreG IRStoreG
  | Ist_CAS IRCAS
  | Ist_LLSC IREndness IRTemp IRExpr "IRExpr option"
  | Ist_Dirty IRDirty
  | Ist_MBE nat
  | Ist_Exit IRExpr nat IRConst int

text \<open>
  A superblock: the types of its temporaries, indexed by temporary, and its statements.
  \<^verbatim>\<open>newIRTemp\<close> gives the next unused temporary the type; \<^verbatim>\<open>addStmtToIRSB\<close> appends.
\<close>

record IRSB =
  tyenv :: "IRType list"
  stmts :: "IRStmt list"
  "next" :: IRExpr
  jumpkind :: nat
  offsIP :: int

definition newIRTemp :: "IRType \<Rightarrow> IRSB \<Rightarrow> IRTemp \<times> IRSB" where
  "newIRTemp ty sb = (of_nat (length (tyenv sb)), sb\<lparr>tyenv := tyenv sb @ [ty]\<rparr>)"

definition addStmtToIRSB :: "IRStmt \<Rightarrow> IRSB \<Rightarrow> IRSB" where
  "addStmtToIRSB st sb = sb\<lparr>stmts := stmts sb @ [st]\<rparr>"

text \<open>
  The ways a call does not return a defined result: a failed \<^verbatim>\<open>tl_assert\<close>, a panic
  of VEX, a read of the type of a temporary that the block does not have, a read
  through the null pointer, and a sum of two ints outside the range of \<^verbatim>\<open>int\<close>.
\<close>

datatype error = Assertion_failed | Panic | Bad_temporary | Null_dereference | Signed_overflow

text \<open>
  \<^verbatim>\<open>sizeofIRType\<close> is VEX's: the size in bytes; it panics on \<^verbatim>\<open>Ity_I1\<close> and
  \<^verbatim>\<open>Ity_INVALID\<close>.
\<close>

fun sizeofIRType :: "IRType \<Rightarrow> error + nat" where
  "sizeofIRType Ity_I8 = Inr 1"
| "sizeofIRType Ity_I16 = Inr 2"
| "sizeofIRType Ity_I32 = Inr 4"
| "sizeofIRType Ity_I64 = Inr 8"
| "sizeofIRType Ity_I128 = Inr 16"
| "sizeofIRType Ity_F16 = Inr 2"
| "sizeofIRType Ity_F32 = Inr 4"
| "sizeofIRType Ity_F64 = Inr 8"
| "sizeofIRType Ity_F128 = Inr 16"
| "sizeofIRType Ity_D32 = Inr 4"
| "sizeofIRType Ity_D64 = Inr 8"
| "sizeofIRType Ity_D128 = Inr 16"
| "sizeofIRType Ity_V128 = Inr 16"
| "sizeofIRType Ity_V256 = Inr 32"
| "sizeofIRType _ = Inl Panic"

section \<open>Forward-mode instrumentation (nl\_main.c)\<close>

text \<open>
  What the tool prints while it instruments: the text of a \<^verbatim>\<open>VG_(printf)\<close> (without
  its line breaks) or an expression printed by VEX's printer \<^verbatim>\<open>ppIRExpr\<close>.
\<close>

datatype out_event = Printf string | PpIRExpr IRExpr

text \<open>
  The state the instrumentation of a block works on: the output block \<^verbatim>\<open>sb_out\<close>
  that \<^verbatim>\<open>DiffEnv\<close> points to, what has been printed, and the static
  \<^verbatim>\<open>stmt_counter\<close> (an unsigned long).
\<close>

record inst_state =
  sb_out :: IRSB
  printed :: "out_event list"
  stmt_counter :: "64 word"

text \<open>
  \<^verbatim>\<open>
  typedef struct { IRTemp t_offset; const VexGuestLayout* layout; IRSB* sb_out; } DiffEnv;
  \<close>
  The only field of the layout that is read is \<^verbatim>\<open>total_sizeB\<close>.
\<close>

record DiffEnv =
  t_offset :: IRTemp
  total_sizeB :: int

definition emit :: "IRStmt \<Rightarrow> inst_state \<Rightarrow> inst_state" where
  "emit st s = s\<lparr>sb_out := addStmtToIRSB st (sb_out s)\<rparr>"

definition fresh_temp :: "IRType \<Rightarrow> inst_state \<Rightarrow> IRTemp \<times> inst_state" where
  "fresh_temp ty s = (fst (newIRTemp ty (sb_out s)), s\<lparr>sb_out := snd (newIRTemp ty (sb_out s))\<rparr>)"

text \<open>The sum of two C ints (\<^verbatim>\<open>Int\<close> is a 32-bit \<^verbatim>\<open>int\<close>): undefined when it overflows.\<close>

definition add_Int :: "int \<Rightarrow> int \<Rightarrow> error + int" where
  "add_Int a b = (if - INT_MAX - 1 \<le> a + b \<and> a + b \<le> INT_MAX then Inr (a + b) else Inl Signed_overflow)"

definition print :: "out_event list \<Rightarrow> inst_state \<Rightarrow> inst_state" where
  "print evs s = s\<lparr>printed := printed s @ evs\<rparr>"

text \<open>
  \<^verbatim>\<open>void ppIRExpr ( const IRExpr* e )\<close> is VEX's printer (\<^verbatim>\<open>priv/ir_defs.c\<close> of the
  library the tool is built on, not a file of the tool). Its body is a
  \<^verbatim>\<open>switch (e->tag)\<close>: the first thing it does is read the tag through its argument.
  Called with an expression it prints it; called with the null pointer it reads
  through the null pointer and does not return.
\<close>

definition ppIRExpr :: "IRExpr option \<Rightarrow> inst_state \<Rightarrow> error + inst_state" where
  "ppIRExpr e s =
     (case e of
        None \<Rightarrow> Inl Null_dereference
      | Some e' \<Rightarrow> Inr (print [PpIRExpr e'] s))"

text \<open>
  \<^verbatim>\<open>
  static Bool canConvertToI64(IRType type){
    switch(type){
      case Ity_I8: case Ity_I16: case Ity_I32: case Ity_I64:
      case Ity_F32: case Ity_F64:
        return True;
      case Ity_INVALID:
        VG_(printf)("Invalid type encountered in canConvertToI64.\n");
        tl_assert(False);
        return False;
      default:
        return False;
    }
  }
  \<close>
\<close>

fun canConvertToI64 :: "IRType \<Rightarrow> error + bool" where
  "canConvertToI64 Ity_I8 = Inr True"
| "canConvertToI64 Ity_I16 = Inr True"
| "canConvertToI64 Ity_I32 = Inr True"
| "canConvertToI64 Ity_I64 = Inr True"
| "canConvertToI64 Ity_F32 = Inr True"
| "canConvertToI64 Ity_F64 = Inr True"
| "canConvertToI64 Ity_INVALID = Inl Assertion_failed"
| "canConvertToI64 _ = Inr False"

text \<open>
  \<^verbatim>\<open>convertToInteger\<close> fails an assertion on every other type;
  \<^verbatim>\<open>convertFromInteger\<close> has no case for them and returns nothing defined.
\<close>

fun convertToInteger :: "IRExpr \<Rightarrow> IRType \<Rightarrow> error + IRExpr" where
  "convertToInteger expr Ity_F32 =
     Inr (Iex_Unop (Iop ''32Uto64'') (Iex_Unop (Iop ''ReinterpF32asI32'') expr))"
| "convertToInteger expr Ity_F64 = Inr (Iex_Unop (Iop ''ReinterpF64asI64'') expr)"
| "convertToInteger expr Ity_I8 = Inr (Iex_Unop (Iop ''8Uto64'') expr)"
| "convertToInteger expr Ity_I16 = Inr (Iex_Unop (Iop ''16Uto64'') expr)"
| "convertToInteger expr Ity_I32 = Inr (Iex_Unop (Iop ''32Uto64'') expr)"
| "convertToInteger expr Ity_I64 = Inr expr"
| "convertToInteger expr _ = Inl Assertion_failed"

fun convertFromInteger :: "IRExpr \<Rightarrow> IRType \<Rightarrow> IRExpr option" where
  "convertFromInteger expr Ity_F32 = Some (Iex_Unop (Iop ''ReinterpI32asF32'') expr)"
| "convertFromInteger expr Ity_F64 = Some (Iex_Unop (Iop ''ReinterpI64asF64'') expr)"
| "convertFromInteger expr Ity_I8 = Some (Iex_Unop (Iop ''64to8'') expr)"
| "convertFromInteger expr Ity_I16 = Some (Iex_Unop (Iop ''64to16'') expr)"
| "convertFromInteger expr Ity_I32 = Some (Iex_Unop (Iop ''64to32'') expr)"
| "convertFromInteger expr Ity_I64 = Some expr"
| "convertFromInteger expr _ = None"

text \<open>
  The helper that loads, or stores, a shadow value of the given size:
  \<^verbatim>\<open>
  switch(sizeofIRType(type)){
    case 1: fname="nl_Load_diff1"; fn=nl_Load_diff1; break;
    case 2: fname="nl_Load_diff2"; fn=nl_Load_diff2; break;
    case 4: fname="nl_Load_diff4"; fn=nl_Load_diff4; break;
    case 8: fname="nl_Load_diff8"; fn=nl_Load_diff8; break;
    default: tl_assert(False);
  }
  \<close>
\<close>

definition helper_for_size :: "string \<Rightarrow> IRType \<Rightarrow> error + string" where
  "helper_for_size prefix type =
     (case sizeofIRType type of
        Inl e \<Rightarrow> Inl e
      | Inr n \<Rightarrow>
          if n = 1 then Inr (prefix @ ''1'')
          else if n = 2 then Inr (prefix @ ''2'')
          else if n = 4 then Inr (prefix @ ''4'')
          else if n = 8 then Inr (prefix @ ''8'')
          else Inl Assertion_failed)"

text \<open>
  The shadow load both \<^verbatim>\<open>differentiate_expr\<close> (for \<^verbatim>\<open>Iex_Load\<close>) and the
  \<^verbatim>\<open>Ist_LoadG\<close> handler emit: a dirty call of \<^verbatim>\<open>nl_Load_diffN\<close> on the address into a
  fresh 64-bit temporary, and a fresh temporary of the original type that receives the
  result converted by \<^verbatim>\<open>convertFromInteger\<close>. The result is that second temporary.
\<close>

definition emit_shadow_load :: "IRExpr \<Rightarrow> IRType \<Rightarrow> inst_state \<Rightarrow> error + (IRTemp \<times> inst_state)" where
  "emit_shadow_load addr type s =
     (case fresh_temp Ity_I64 s of
        (loadAddr, s1) \<Rightarrow>
          (case helper_for_size ''nl_Load_diff'' type of
             Inl e \<Rightarrow> Inl e
           | Inr fname \<Rightarrow>
               (case fresh_temp type (emit (Ist_Dirty (unsafeIRDirty_1_N loadAddr fname [addr])) s1) of
                  (loadAddr_reinterpreted, s3) \<Rightarrow>
                    (case convertFromInteger (Iex_RdTmp loadAddr) type of
                       None \<Rightarrow> Inl Panic
                     | Some conv \<Rightarrow>
                         Inr (loadAddr_reinterpreted,
                              emit (Ist_WrTmp loadAddr_reinterpreted conv) s3)))))"

text \<open>The \<^verbatim>\<open>switch(rex->op)\<close> of the \<^verbatim>\<open>Iex_Triop\<close> branch.\<close>

definition differentiate_Triop :: "IROp \<Rightarrow> IRExpr \<Rightarrow> IRExpr \<Rightarrow> IRExpr \<Rightarrow> IRExpr \<Rightarrow> IRExpr \<Rightarrow> IRExpr option" where
  "differentiate_Triop op arg1 arg2 arg3 d2 d3 =
     (if op = Iop ''AddF64'' then Some (Iex_Triop (Iop ''AddF64'') arg1 d2 d3)
      else if op = Iop ''AddF32'' then Some (Iex_Triop (Iop ''AddF32'') arg1 d2 d3)
      else if op = Iop ''SubF64'' then Some (Iex_Triop (Iop ''SubF64'') arg1 d2 d3)
      else if op = Iop ''SubF32'' then Some (Iex_Triop (Iop ''SubF32'') arg1 d2 d3)
      else if op = Iop ''MulF64'' then
        Some (Iex_Triop (Iop ''AddF64'') arg1
               (Iex_Triop (Iop ''MulF64'') arg1 d2 arg3)
               (Iex_Triop (Iop ''MulF64'') arg1 d3 arg2))
      else if op = Iop ''MulF32'' then
        Some (Iex_Triop (Iop ''AddF32'') arg1
               (Iex_Triop (Iop ''MulF32'') arg1 d2 arg3)
               (Iex_Triop (Iop ''MulF32'') arg1 d3 arg2))
      else if op = Iop ''DivF64'' then
        Some (Iex_Triop (Iop ''DivF64'') arg1
               (Iex_Triop (Iop ''SubF64'') arg1
                 (Iex_Triop (Iop ''MulF64'') arg1 d2 arg3)
                 (Iex_Triop (Iop ''MulF64'') arg1 d3 arg2))
               (Iex_Triop (Iop ''MulF64'') arg1 arg3 arg3))
      else if op = Iop ''DivF32'' then
        Some (Iex_Triop (Iop ''DivF32'') arg1
               (Iex_Triop (Iop ''SubF32'') arg1
                 (Iex_Triop (Iop ''MulF32'') arg1 d2 arg3)
                 (Iex_Triop (Iop ''MulF32'') arg1 d3 arg2))
               (Iex_Triop (Iop ''MulF32'') arg1 arg3 arg3))
      else None)"

text \<open>The \<^verbatim>\<open>switch(op)\<close> of the \<^verbatim>\<open>Iex_Binop\<close> branch.\<close>

definition differentiate_Binop :: "IROp \<Rightarrow> IRExpr \<Rightarrow> IRExpr \<Rightarrow> IRExpr \<Rightarrow> IRExpr option" where
  "differentiate_Binop op arg1 arg2 d2 =
     (if op = Iop ''SqrtF64'' then
        Some (Iex_Triop (Iop ''DivF64'') arg1 d2
               (Iex_Triop (Iop ''MulF64'') arg1 (Iex_Const (Ico_F64 2))
                 (Iex_Binop (Iop ''SqrtF64'') arg1 arg2)))
      else if op = Iop ''SqrtF32'' then
        Some (Iex_Triop (Iop ''DivF32'') arg1 d2
               (Iex_Triop (Iop ''MulF32'') arg1 (Iex_Const (Ico_F32 2))
                 (Iex_Binop (Iop ''SqrtF32'') arg1 arg2)))
      else None)"

text \<open>
  The \<^verbatim>\<open>switch(op)\<close> of the \<^verbatim>\<open>Iex_Unop\<close> branch:
  \<^verbatim>\<open>
  case Iop_AbsF64: {
    // If arg >= 0, we get Ircr_GT or Ircr_EQ, thus the Iop_32to1 gives a 0 bit.
    IRExpr* cond = IRExpr_Binop(Iop_CmpF64, arg, IRExpr_Const(IRConst_F64(0.)));
    IRExpr* minus_d = IRExpr_Unop(Iop_NegF64, d);
    return IRExpr_ITE(IRExpr_Unop(Iop_32to1,cond), minus_d, d);
  }
  \<close>
\<close>

definition differentiate_Unop :: "IROp \<Rightarrow> IRExpr \<Rightarrow> IRExpr \<Rightarrow> IRExpr option" where
  "differentiate_Unop op arg d =
     (if op = Iop ''NegF64'' then Some (Iex_Unop (Iop ''NegF64'') d)
      else if op = Iop ''NegF32'' then Some (Iex_Unop (Iop ''NegF32'') d)
      else if op = Iop ''AbsF64'' then
        Some (Iex_ITE
               (Iex_Unop (Iop ''32to1'') (Iex_Binop (Iop ''CmpF64'') arg (Iex_Const (Ico_F64 0))))
               (Iex_Unop (Iop ''NegF64'') d) d)
      else if op = Iop ''AbsF32'' then
        Some (Iex_ITE
               (Iex_Unop (Iop ''32to1'') (Iex_Binop (Iop ''CmpF32'') arg (Iex_Const (Ico_F32 0))))
               (Iex_Unop (Iop ''NegF32'') d) d)
      else None)"

text \<open>The \<^verbatim>\<open>Iex_Const\<close> branch: the zero constant of the same tag.\<close>

fun differentiate_Const :: "IRConst \<Rightarrow> IRConst" where
  "differentiate_Const (Ico_F64 _) = Ico_F64 0"
| "differentiate_Const (Ico_F64i _) = Ico_F64i 0"
| "differentiate_Const (Ico_F32 _) = Ico_F32 0"
| "differentiate_Const (Ico_F32i _) = Ico_F32i 0"
| "differentiate_Const (Ico_U1 _) = Ico_U1 False"
| "differentiate_Const (Ico_U8 _) = Ico_U8 0"
| "differentiate_Const (Ico_U16 _) = Ico_U16 0"
| "differentiate_Const (Ico_U32 _) = Ico_U32 0"
| "differentiate_Const (Ico_U64 _) = Ico_U64 0"
| "differentiate_Const (Ico_U128 _) = Ico_U128 0"
| "differentiate_Const (Ico_V128 _) = Ico_V128 0"
| "differentiate_Const (Ico_V256 _) = Ico_V256 0"

text \<open>
  \<^verbatim>\<open>differentiate_expr(ex, diffenv)\<close> returns the derivative of an expression or the
  null pointer (\<open>None\<close>), and may append helper statements to \<^verbatim>\<open>diffenv.sb_out\<close>. It
  does not return when \<^verbatim>\<open>canConvertToI64\<close> fails its assertion, and when the
  \<^verbatim>\<open>Iex_ITE\<close> branch hands a null derivative to the printer:
  \<^verbatim>\<open>
  } else if(ex->tag==Iex_ITE) {
    IRExpr* dtrue = differentiate_expr(ex->Iex.ITE.iftrue, diffenv);
    IRExpr* dfalse = differentiate_expr(ex->Iex.ITE.iffalse, diffenv);
    VG_(printf)("generate ITE: iftrue=\n");
    ppIRExpr(dtrue);
    VG_(printf)("\niffalse=\n");
    ppIRExpr(dfalse);
    VG_(printf)("\n");
    if(dtrue==NULL || dfalse==NULL) return NULL;
    else return IRExpr_ITE(ex->Iex.ITE.cond, dtrue, dfalse);
  }
  \<close>
  The offsets of \<^verbatim>\<open>Iex_Get\<close> and \<^verbatim>\<open>Iex_GetI\<close> and \<^verbatim>\<open>total_sizeB\<close> are C ints, added
  with \<open>add_Int\<close>.
\<close>

fun differentiate_expr ::
  "DiffEnv \<Rightarrow> IRExpr \<Rightarrow> inst_state \<Rightarrow> error + (IRExpr option \<times> inst_state)" where
  "differentiate_expr diffenv (Iex_Triop op arg1 arg2 arg3) s =
     (case differentiate_expr diffenv arg2 s of
        Inl e \<Rightarrow> Inl e
      | Inr (d2, s2) \<Rightarrow>
          (case differentiate_expr diffenv arg3 s2 of
             Inl e \<Rightarrow> Inl e
           | Inr (d3, s3) \<Rightarrow>
               (case (d2, d3) of
                  (Some d2', Some d3') \<Rightarrow> Inr (differentiate_Triop op arg1 arg2 arg3 d2' d3', s3)
                | _ \<Rightarrow> Inr (None, s3))))"
| "differentiate_expr diffenv (Iex_Binop op arg1 arg2) s =
     (case differentiate_expr diffenv arg2 s of
        Inl e \<Rightarrow> Inl e
      | Inr (None, s2) \<Rightarrow> Inr (None, s2)
      | Inr (Some d2, s2) \<Rightarrow> Inr (differentiate_Binop op arg1 arg2 d2, s2))"
| "differentiate_expr diffenv (Iex_Unop op arg) s =
     (case differentiate_expr diffenv arg s of
        Inl e \<Rightarrow> Inl e
      | Inr (None, s1) \<Rightarrow> Inr (None, s1)
      | Inr (Some d, s1) \<Rightarrow> Inr (differentiate_Unop op arg d, s1))"
| "differentiate_expr diffenv (Iex_Const con) s =
     Inr (Some (Iex_Const (differentiate_Const con)), s)"
| "differentiate_expr diffenv (Iex_ITE cond iftrue iffalse) s =
     (case differentiate_expr diffenv iftrue s of
        Inl e \<Rightarrow> Inl e
      | Inr (dtrue, s1) \<Rightarrow>
          (case differentiate_expr diffenv iffalse s1 of
             Inl e \<Rightarrow> Inl e
           | Inr (dfalse, s2) \<Rightarrow>
               (case ppIRExpr dtrue (print [Printf ''generate ITE: iftrue=''] s2) of
                  Inl e \<Rightarrow> Inl e
                | Inr s3 \<Rightarrow>
                    (case ppIRExpr dfalse (print [Printf ''iffalse=''] s3) of
                       Inl e \<Rightarrow> Inl e
                     | Inr s4 \<Rightarrow>
                         (case (dtrue, dfalse) of
                            (Some dt, Some df) \<Rightarrow>
                              Inr (Some (Iex_ITE cond dt df), print [Printf []] s4)
                          | _ \<Rightarrow> Inr (None, print [Printf []] s4))))))"
| "differentiate_expr diffenv (Iex_RdTmp t) s =
     Inr (Some (Iex_RdTmp (t + t_offset diffenv)), s)"
| "differentiate_expr diffenv (Iex_Get offset ty) s =
     (case add_Int offset (total_sizeB diffenv) of
        Inl e \<Rightarrow> Inl e
      | Inr offset_diff \<Rightarrow> Inr (Some (Iex_Get offset_diff ty), s))"
| "differentiate_expr diffenv (Iex_GetI descr ix bias) s =
     (case add_Int (base descr) (total_sizeB diffenv) of
        Inl e \<Rightarrow> Inl e
      | Inr base_diff \<Rightarrow>
          (case add_Int bias (total_sizeB diffenv) of
             Inl e \<Rightarrow> Inl e
           | Inr bias_diff \<Rightarrow>
               Inr (Some (Iex_GetI
                           \<lparr>base = base_diff, elemTy = elemTy descr, nElems = nElems descr\<rparr>
                           ix bias_diff), s)))"
| "differentiate_expr diffenv (Iex_Load en type addr) s =
     (case canConvertToI64 type of
        Inl e \<Rightarrow> Inl e
      | Inr False \<Rightarrow> Inr (None, s)
      | Inr True \<Rightarrow>
          (case emit_shadow_load addr type s of
             Inl e \<Rightarrow> Inl e
           | Inr (loadAddr_reinterpreted, s') \<Rightarrow> Inr (Some (Iex_RdTmp loadAddr_reinterpreted), s')))"
| "differentiate_expr diffenv _ s = Inr (None, s)"

text \<open>
  \<^verbatim>\<open>
  static
  IRExpr* differentiate_or_warn(IRExpr* expr, DiffEnv diffenv, Bool warn, const char* operation){
    IRExpr* diff = differentiate_expr(expr,diffenv);
    if(diff==NULL && warn){
      VG_(printf)("Warning: Expression\n");
      ppIRExpr(expr);
      VG_(printf)("could not be differentiated in %s.\n\n", operation);
    }
    return diff;
  }
  \<close>
\<close>

definition differentiate_or_warn ::
  "IRExpr \<Rightarrow> DiffEnv \<Rightarrow> bool \<Rightarrow> string \<Rightarrow> inst_state \<Rightarrow> error + (IRExpr option \<times> inst_state)" where
  "differentiate_or_warn expr diffenv warn operation s =
     (case differentiate_expr diffenv expr s of
        Inl e \<Rightarrow> Inl e
      | Inr (diff, s1) \<Rightarrow>
          if diff = None \<and> warn then
            (case ppIRExpr (Some expr) (print [Printf ''Warning: Expression''] s1) of
               Inl e \<Rightarrow> Inl e
             | Inr s2 \<Rightarrow>
                 Inr (diff,
                      print [Printf (''could not be differentiated in '' @ operation @ ''.'')] s2))
          else Inr (diff, s1))"

text \<open>
  The body of the statement loop of \<^verbatim>\<open>nl_instrument\<close> for one statement of the input
  block: the counter is incremented, the statement's handler may append shadow
  statements, and the original statement is appended last. \<open>types\<close> are the types of
  the temporaries of the input block (\<^verbatim>\<open>sb_in->tyenv->types\<close>); VEX's
  \<^verbatim>\<open>typeOfIRExpr(sb_in->tyenv, e)\<close> is the parameter \<open>typeOfIRExpr\<close>.
\<close>

definition typeOfIRTemp :: "IRType list \<Rightarrow> IRTemp \<Rightarrow> error + IRType" where
  "typeOfIRTemp types t = (if unat t < length types then Inr (types ! unat t) else Inl Bad_temporary)"

definition is_float :: "IRType \<Rightarrow> bool" where
  "is_float type \<longleftrightarrow> type = Ity_F64 \<or> type = Ity_F32"

definition handle_WrTmp :: "IRType list \<Rightarrow> DiffEnv \<Rightarrow> IRTemp \<Rightarrow> IRExpr \<Rightarrow> inst_state \<Rightarrow> error + inst_state" where
  "handle_WrTmp types diffenv t data s =
     (case typeOfIRTemp types t of
        Inl e \<Rightarrow> Inl e
      | Inr type \<Rightarrow>
          (case differentiate_or_warn data diffenv (is_float type) ''WrTmp'' s of
             Inl e \<Rightarrow> Inl e
           | Inr (None, s1) \<Rightarrow> Inr s1
           | Inr (Some differentiated_expr, s1) \<Rightarrow>
               Inr (emit (Ist_WrTmp (t + t_offset diffenv) differentiated_expr) s1)))"

definition handle_Put :: "(IRExpr \<Rightarrow> IRType) \<Rightarrow> DiffEnv \<Rightarrow> int \<Rightarrow> IRExpr \<Rightarrow> inst_state \<Rightarrow> error + inst_state" where
  "handle_Put typeOfIRExpr diffenv offset data s =
     (case differentiate_or_warn data diffenv (is_float (typeOfIRExpr data)) ''Put'' s of
        Inl e \<Rightarrow> Inl e
      | Inr (None, s1) \<Rightarrow> Inr s1
      | Inr (Some differentiated_expr, s1) \<Rightarrow>
          (case add_Int offset (total_sizeB diffenv) of
             Inl e \<Rightarrow> Inl e
           | Inr offset_diff \<Rightarrow> Inr (emit (Ist_Put offset_diff differentiated_expr) s1)))"

definition handle_PutI :: "(IRExpr \<Rightarrow> IRType) \<Rightarrow> DiffEnv \<Rightarrow> IRPutI \<Rightarrow> inst_state \<Rightarrow> error + inst_state" where
  "handle_PutI typeOfIRExpr diffenv details s =
     (case differentiate_or_warn (putI_data details) diffenv
             (is_float (typeOfIRExpr (putI_data details))) ''PutI'' s of
        Inl e \<Rightarrow> Inl e
      | Inr (None, s1) \<Rightarrow> Inr s1
      | Inr (Some differentiated_expr, s1) \<Rightarrow>
          (case add_Int (base (putI_descr details)) (total_sizeB diffenv) of
             Inl e \<Rightarrow> Inl e
           | Inr base_diff \<Rightarrow>
               (case add_Int (putI_bias details) (total_sizeB diffenv) of
                  Inl e \<Rightarrow> Inl e
                | Inr bias_diff \<Rightarrow>
                    Inr (emit (Ist_PutI
                           \<lparr>putI_descr =
                              \<lparr>base = base_diff, elemTy = elemTy (putI_descr details),
                               nElems = nElems (putI_descr details)\<rparr>,
                            putI_ix = putI_ix details,
                            putI_bias = bias_diff,
                            putI_data = differentiated_expr\<rparr>) s1))))"

text \<open>
  \<^verbatim>\<open>Ist_Store\<close> and \<^verbatim>\<open>Ist_StoreG\<close> share a handler; \<open>g\<close> is the guard of a guarded
  store.
\<close>

definition handle_Store ::
  "(IRExpr \<Rightarrow> IRType) \<Rightarrow> DiffEnv \<Rightarrow> IRExpr \<Rightarrow> IRExpr \<Rightarrow> IRExpr option \<Rightarrow> inst_state \<Rightarrow> error + inst_state" where
  "handle_Store typeOfIRExpr diffenv addr data g s =
     (case canConvertToI64 (typeOfIRExpr data) of
        Inl e \<Rightarrow> Inl e
      | Inr False \<Rightarrow> Inr s
      | Inr True \<Rightarrow>
          (case differentiate_or_warn data diffenv (is_float (typeOfIRExpr data)) ''Store'' s of
             Inl e \<Rightarrow> Inl e
           | Inr (None, s1) \<Rightarrow> Inr s1
           | Inr (Some differentiated_expr, s1) \<Rightarrow>
               (case convertToInteger differentiated_expr (typeOfIRExpr data) of
                  Inl e \<Rightarrow> Inl e
                | Inr differentiated_expr_reinterpreted \<Rightarrow>
                    (case helper_for_size ''nl_Store_diff'' (typeOfIRExpr data) of
                       Inl e \<Rightarrow> Inl e
                     | Inr fname \<Rightarrow>
                         (case ppIRExpr (Some differentiated_expr_reinterpreted)
                                 (print [Printf ''Adding dirty: ''] s1) of
                            Inl e \<Rightarrow> Inl e
                          | Inr s2 \<Rightarrow>
                              Inr (emit (Ist_Dirty
                                     ((unsafeIRDirty_0_N fname [addr, differentiated_expr_reinterpreted])
                                        \<lparr>guard := (case g of None \<Rightarrow> Iex_Const (Ico_U1 True) | Some g' \<Rightarrow> g')\<rparr>))
                                   (print [Printf []] s2)))))))"

definition handle_LoadG :: "IRType list \<Rightarrow> DiffEnv \<Rightarrow> IRLoadG \<Rightarrow> inst_state \<Rightarrow> error + inst_state" where
  "handle_LoadG types diffenv det s =
     (case typeOfIRTemp types (lg_dst det) of
        Inl e \<Rightarrow> Inl e
      | Inr type \<Rightarrow>
          (case canConvertToI64 type of
             Inl e \<Rightarrow> Inl e
           | Inr False \<Rightarrow> Inr s
           | Inr True \<Rightarrow>
               if (type = Ity_F64 \<and> lg_cvt det \<noteq> ILGop_Ident64) \<or>
                  (type = Ity_F32 \<and> lg_cvt det \<noteq> ILGop_Ident32)
               then Inl Assertion_failed
               else
                 (case differentiate_or_warn (lg_alt det) diffenv (is_float type)
                         ''alternative-LoadG'' s of
                    Inl e \<Rightarrow> Inl e
                  | Inr (None, s1) \<Rightarrow> Inr s1
                  | Inr (Some differentiated_expr_alt, s1) \<Rightarrow>
                      (case emit_shadow_load (lg_addr det) type s1 of
                         Inl e \<Rightarrow> Inl e
                       | Inr (loadAddr_reinterpreted, s2) \<Rightarrow>
                           Inr (emit (Ist_WrTmp (lg_dst det + t_offset diffenv)
                                  (Iex_ITE (lg_guard det) (Iex_RdTmp loadAddr_reinterpreted)
                                     differentiated_expr_alt)) s2)))))"

definition handle_CAS :: "DiffEnv \<Rightarrow> IRCAS \<Rightarrow> inst_state \<Rightarrow> inst_state" where
  "handle_CAS diffenv details s =
     (let s1 = print [Printf ''Did not instrument Ist_CAS statement.''] s;
          s2 = emit (Ist_WrTmp (oldLo details + t_offset diffenv) (Iex_Const (Ico_F64 0))) s1
      in if oldHi details \<noteq> IRTemp_INVALID
         then emit (Ist_WrTmp (oldHi details + t_offset diffenv) (Iex_Const (Ico_F64 0))) s2
         else s2)"

fun handle_stmt ::
  "(IRExpr \<Rightarrow> IRType) \<Rightarrow> IRType list \<Rightarrow> DiffEnv \<Rightarrow> IRStmt \<Rightarrow> inst_state \<Rightarrow> error + inst_state" where
  "handle_stmt typeOfIRExpr types diffenv (Ist_WrTmp t data) s = handle_WrTmp types diffenv t data s"
| "handle_stmt typeOfIRExpr types diffenv (Ist_Put offset data) s =
     handle_Put typeOfIRExpr diffenv offset data s"
| "handle_stmt typeOfIRExpr types diffenv (Ist_PutI details) s =
     handle_PutI typeOfIRExpr diffenv details s"
| "handle_stmt typeOfIRExpr types diffenv (Ist_Store en addr data) s =
     handle_Store typeOfIRExpr diffenv addr data None s"
| "handle_stmt typeOfIRExpr types diffenv (Ist_StoreG details) s =
     handle_Store typeOfIRExpr diffenv (sg_addr details) (sg_data details)
       (Some (sg_guard details)) s"
| "handle_stmt typeOfIRExpr types diffenv (Ist_LoadG det) s = handle_LoadG types diffenv det s"
| "handle_stmt typeOfIRExpr types diffenv (Ist_CAS details) s = Inr (handle_CAS diffenv details s)"
| "handle_stmt typeOfIRExpr types diffenv (Ist_LLSC en res addr storedata) s =
     Inr (print [Printf ''Did not instrument Ist_LLSC statement.''] s)"
| "handle_stmt typeOfIRExpr types diffenv (Ist_Dirty di) s =
     Inr (print [Printf ''Cannot instrument Ist_Dirty statement.''] s)"
| "handle_stmt typeOfIRExpr types diffenv _ s = Inr s"

definition instrument_stmt ::
  "(IRExpr \<Rightarrow> IRType) \<Rightarrow> IRType list \<Rightarrow> DiffEnv \<Rightarrow> IRStmt \<Rightarrow> inst_state \<Rightarrow> error + inst_state" where
  "instrument_stmt typeOfIRExpr types diffenv st_orig s =
     (case handle_stmt typeOfIRExpr types diffenv st_orig (s\<lparr>stmt_counter := stmt_counter s + 1\<rparr>) of
        Inl e \<Rightarrow> Inl e
      | Inr s1 \<Rightarrow> Inr (emit st_orig s1))"

fun instrument_stmts ::
  "(IRExpr \<Rightarrow> IRType) \<Rightarrow> IRType list \<Rightarrow> DiffEnv \<Rightarrow> IRStmt list \<Rightarrow> inst_state \<Rightarrow> error + inst_state" where
  "instrument_stmts typeOfIRExpr types diffenv [] s = Inr s"
| "instrument_stmts typeOfIRExpr types diffenv (st # sts) s =
     (case instrument_stmt typeOfIRExpr types diffenv st s of
        Inl e \<Rightarrow> Inl e
      | Inr s1 \<Rightarrow> instrument_stmts typeOfIRExpr types diffenv sts s1)"

text \<open>
  \<^verbatim>\<open>nl_instrument\<close>: the output block starts as a copy of the input block without
  statements; every temporary gets a shadow temporary of the same type, \<^verbatim>\<open>t_offset\<close>
  further on; the statements before the first \<^verbatim>\<open>Ist_IMark\<close> are copied, the others
  instrumented.
\<close>

fun is_IMark :: "IRStmt \<Rightarrow> bool" where
  "is_IMark (Ist_IMark _ _ _) = True"
| "is_IMark _ = False"

definition nl_instrument ::
  "(IRExpr \<Rightarrow> IRType) \<Rightarrow> int \<Rightarrow> IRSB \<Rightarrow> out_event list \<Rightarrow> 64 word \<Rightarrow> error + inst_state" where
  "nl_instrument typeOfIRExpr layout_total_sizeB sb_in out counter =
     (let diffenv = \<lparr>t_offset = of_nat (length (tyenv sb_in)), total_sizeB = layout_total_sizeB\<rparr>;
          sb0 = fold (\<lambda>ty sb. snd (newIRTemp ty sb)) (tyenv sb_in) (sb_in\<lparr>stmts := []\<rparr>);
          sb1 = fold addStmtToIRSB (takeWhile (\<lambda>st. \<not> is_IMark st) (stmts sb_in)) sb0
      in instrument_stmts typeOfIRExpr (tyenv sb_in) diffenv
           (dropWhile (\<lambda>st. \<not> is_IMark st) (stmts sb_in))
           \<lparr>sb_out = sb1, printed = out, stmt_counter = counter\<rparr>)"

section \<open>The meaning of the operators in the emitted expressions\<close>

text \<open>
  The derivative expressions are VEX IR; what they compute is fixed by VEX
  (\<^verbatim>\<open>libvex_ir.h\<close>). The operators that the rules for the absolute value and for the
  wide logical operations emit are given their VEX meaning here.

  A floating-point value is a NaN, an infinity or a number (the two zeros are the
  number 0). \<^verbatim>\<open>Iop_CmpF64\<close> and \<^verbatim>\<open>Iop_CmpF32\<close> return an \<^verbatim>\<open>IRCmpFResult\<close> as a 32-bit
  integer: \<^verbatim>\<open>Ircr_UN = 0x45, Ircr_LT = 0x01, Ircr_GT = 0x00, Ircr_EQ = 0x40\<close>; the
  result is \<^verbatim>\<open>Ircr_UN\<close> (unordered) when an operand is a NaN. \<^verbatim>\<open>Iop_32to1\<close> keeps the
  lowest bit.
\<close>

datatype fpval = FP_NaN | FP_MinusInf | FP_Finite real | FP_PlusInf

datatype IRCmpFResult = Ircr_UN | Ircr_LT | Ircr_GT | Ircr_EQ

fun IRCmpFResult_code :: "IRCmpFResult \<Rightarrow> 32 word" where
  "IRCmpFResult_code Ircr_UN = 0x45"
| "IRCmpFResult_code Ircr_LT = 0x01"
| "IRCmpFResult_code Ircr_GT = 0x00"
| "IRCmpFResult_code Ircr_EQ = 0x40"

fun fp_rank :: "fpval \<Rightarrow> int \<times> real" where
  "fp_rank FP_MinusInf = (-1, 0)"
| "fp_rank (FP_Finite r) = (0, r)"
| "fp_rank FP_PlusInf = (1, 0)"
| "fp_rank FP_NaN = (2, 0)"

definition fp_less :: "fpval \<Rightarrow> fpval \<Rightarrow> bool" where
  "fp_less x y \<longleftrightarrow>
     x \<noteq> FP_NaN \<and> y \<noteq> FP_NaN \<and>
     (fst (fp_rank x) < fst (fp_rank y) \<or>
      (fst (fp_rank x) = fst (fp_rank y) \<and> snd (fp_rank x) < snd (fp_rank y)))"

definition CmpF :: "fpval \<Rightarrow> fpval \<Rightarrow> IRCmpFResult" where
  "CmpF x y =
     (if x = FP_NaN \<or> y = FP_NaN then Ircr_UN
      else if fp_less x y then Ircr_LT
      else if fp_less y x then Ircr_GT
      else Ircr_EQ)"

text \<open>
  The values of the fragment: a bit, 32-, 64-, 128- and 256-bit integers or vectors, and
  floating-point values of the two widths.
\<close>

datatype val =
    VI1 bool | VI32 "32 word" | VI64 "64 word" | VV128 "128 word" | VV256 "256 word"
  | VF64 fpval | VF32 fpval

text \<open>
  The 64-bit chunk number \<open>i\<close> of a vector, counted from the least significant end:
  \<^verbatim>\<open>Iop_V128to64\<close> and \<^verbatim>\<open>Iop_V128HIto64\<close> select chunks 0 and 1 of a V128,
  \<^verbatim>\<open>Iop_V256to64_0\<close> to \<^verbatim>\<open>Iop_V256to64_3\<close> chunks 0 to 3 of a V256.
  \<^verbatim>\<open>Iop_64HLtoV128\<close> takes the high chunk first, \<^verbatim>\<open>Iop_64x4toV256\<close> the most
  significant chunk first.
\<close>

definition chunk128 :: "nat \<Rightarrow> 128 word \<Rightarrow> 64 word" where
  "chunk128 i w = ucast (drop_bit (64 * i) w)"

definition chunk256 :: "nat \<Rightarrow> 256 word \<Rightarrow> 64 word" where
  "chunk256 i w = ucast (drop_bit (64 * i) w)"

definition Iop_64HLtoV128 :: "64 word \<Rightarrow> 64 word \<Rightarrow> 128 word" where
  "Iop_64HLtoV128 hi lo = word_cat hi lo"

definition Iop_64x4toV256 :: "64 word \<Rightarrow> 64 word \<Rightarrow> 64 word \<Rightarrow> 64 word \<Rightarrow> 256 word" where
  "Iop_64x4toV256 a3 a2 a1 a0 =
     word_cat a3 (word_cat a2 (word_cat a1 a0 :: 128 word) :: 192 word)"

text \<open>
  Evaluation of an expression of the fragment. \<open>\<rho>\<close> gives the value of every
  expression outside the fragment (the operands and their derivatives), \<open>H\<close> the result
  of a helper called by name on argument values. An ill-typed expression has no value.
\<close>

fun the_all :: "'a option list \<Rightarrow> 'a list option" where
  "the_all [] = Some []"
| "the_all (None # _) = None"
| "the_all (Some x # xs) = (case the_all xs of None \<Rightarrow> None | Some ys \<Rightarrow> Some (x # ys))"

fun eval :: "(IRExpr \<Rightarrow> val option) \<Rightarrow> (string \<Rightarrow> val list \<Rightarrow> val option) \<Rightarrow> IRExpr \<Rightarrow> val option" where
  "eval \<rho> H (Iex_Const (Ico_F64 r)) = Some (VF64 (FP_Finite r))"
| "eval \<rho> H (Iex_Const (Ico_F32 r)) = Some (VF32 (FP_Finite r))"
| "eval \<rho> H (Iex_ITE c t e) =
     (case eval \<rho> H c of
        Some (VI1 b) \<Rightarrow> if b then eval \<rho> H t else eval \<rho> H e
      | _ \<Rightarrow> None)"
| "eval \<rho> H (Iex_Unop op e) =
     (if op = Iop ''32to1'' then
        (case eval \<rho> H e of Some (VI32 w) \<Rightarrow> Some (VI1 (bit w 0)) | _ \<Rightarrow> None)
      else if op = Iop ''V128to64'' then
        (case eval \<rho> H e of Some (VV128 w) \<Rightarrow> Some (VI64 (chunk128 0 w)) | _ \<Rightarrow> None)
      else if op = Iop ''V128HIto64'' then
        (case eval \<rho> H e of Some (VV128 w) \<Rightarrow> Some (VI64 (chunk128 1 w)) | _ \<Rightarrow> None)
      else if op = Iop ''V256to64_0'' then
        (case eval \<rho> H e of Some (VV256 w) \<Rightarrow> Some (VI64 (chunk256 0 w)) | _ \<Rightarrow> None)
      else if op = Iop ''V256to64_1'' then
        (case eval \<rho> H e of Some (VV256 w) \<Rightarrow> Some (VI64 (chunk256 1 w)) | _ \<Rightarrow> None)
      else if op = Iop ''V256to64_2'' then
        (case eval \<rho> H e of Some (VV256 w) \<Rightarrow> Some (VI64 (chunk256 2 w)) | _ \<Rightarrow> None)
      else if op = Iop ''V256to64_3'' then
        (case eval \<rho> H e of Some (VV256 w) \<Rightarrow> Some (VI64 (chunk256 3 w)) | _ \<Rightarrow> None)
      else \<rho> (Iex_Unop op e))"
| "eval \<rho> H (Iex_Binop op a b) =
     (if op = Iop ''CmpF64'' then
        (case (eval \<rho> H a, eval \<rho> H b) of
           (Some (VF64 x), Some (VF64 y)) \<Rightarrow> Some (VI32 (IRCmpFResult_code (CmpF x y)))
         | _ \<Rightarrow> None)
      else if op = Iop ''CmpF32'' then
        (case (eval \<rho> H a, eval \<rho> H b) of
           (Some (VF32 x), Some (VF32 y)) \<Rightarrow> Some (VI32 (IRCmpFResult_code (CmpF x y)))
         | _ \<Rightarrow> None)
      else if op = Iop ''64HLtoV128'' then
        (case (eval \<rho> H a, eval \<rho> H b) of
           (Some (VI64 hi), Some (VI64 lo)) \<Rightarrow> Some (VV128 (Iop_64HLtoV128 hi lo))
         | _ \<Rightarrow> None)
      else \<rho> (Iex_Binop op a b))"
| "eval \<rho> H (Iex_Qop op a b c d) =
     (if op = Iop ''64x4toV256'' then
        (case (eval \<rho> H a, eval \<rho> H b, eval \<rho> H c, eval \<rho> H d) of
           (Some (VI64 a3), Some (VI64 a2), Some (VI64 a1), Some (VI64 a0)) \<Rightarrow>
             Some (VV256 (Iop_64x4toV256 a3 a2 a1 a0))
         | _ \<Rightarrow> None)
      else \<rho> (Iex_Qop op a b c d))"
| "eval \<rho> H (Iex_CCall name retty as) =
     (case the_all (map (eval \<rho> H) as) of None \<Rightarrow> None | Some vs \<Rightarrow> H name vs)"
| "eval \<rho> H e = \<rho> e"

section \<open>The types of the conversion operators\<close>

text \<open>
  The conversions between a value and its 64-bit shadow representation are unary
  operators of VEX. \<^verbatim>\<open>typeOfPrimop\<close> of VEX gives every operator the type of its
  operand and the type of its result; for the operators that
  \<^verbatim>\<open>convertToInteger\<close> and \<^verbatim>\<open>convertFromInteger\<close> use these are (operand first):
  \<^verbatim>\<open>
  Iop_8Uto64: I8, I64      Iop_16Uto64: I16, I64    Iop_32Uto64: I32, I64
  Iop_64to8: I64, I8       Iop_64to16: I64, I16     Iop_64to32: I64, I32
  Iop_ReinterpF32asI32: F32, I32    Iop_ReinterpI32asF32: I32, F32
  Iop_ReinterpF64asI64: F64, I64    Iop_ReinterpI64asF64: I64, F64
  \<close>
\<close>

definition typeOfPrimop :: "IROp \<Rightarrow> (IRType \<times> IRType) option" where
  "typeOfPrimop op =
     (if op = Iop ''8Uto64'' then Some (Ity_I8, Ity_I64)
      else if op = Iop ''16Uto64'' then Some (Ity_I16, Ity_I64)
      else if op = Iop ''32Uto64'' then Some (Ity_I32, Ity_I64)
      else if op = Iop ''64to8'' then Some (Ity_I64, Ity_I8)
      else if op = Iop ''64to16'' then Some (Ity_I64, Ity_I16)
      else if op = Iop ''64to32'' then Some (Ity_I64, Ity_I32)
      else if op = Iop ''ReinterpF32asI32'' then Some (Ity_F32, Ity_I32)
      else if op = Iop ''ReinterpI32asF32'' then Some (Ity_I32, Ity_F32)
      else if op = Iop ''ReinterpF64asI64'' then Some (Ity_F64, Ity_I64)
      else if op = Iop ''ReinterpI64asF64'' then Some (Ity_I64, Ity_F64)
      else None)"

text \<open>
  The type check that VEX runs on every expression of a block (\<^verbatim>\<open>tcExpr\<close> of
  \<^verbatim>\<open>sanityCheckIRSB\<close>), for temporaries and these unary operators: the type of the
  expression, given the types of the temporaries, or nothing when an operator is applied
  to an operand that does not have the operator's operand type.
\<close>

fun tcExpr :: "IRType list \<Rightarrow> IRExpr \<Rightarrow> IRType option" where
  "tcExpr types (Iex_RdTmp t) = (if unat t < length types then Some (types ! unat t) else None)"
| "tcExpr types (Iex_Unop op arg) =
     (case typeOfPrimop op of
        None \<Rightarrow> None
      | Some (t_arg, t_dst) \<Rightarrow> if tcExpr types arg = Some t_arg then Some t_dst else None)"
| "tcExpr types _ = None"

section \<open>Logical operations in the recording rules (dg\_bar.c)\<close>

text \<open>
  The \<^verbatim>\<open>Iex_Binop\<close> branch of \<^verbatim>\<open>record_expr\<close> starts with
  \<^verbatim>\<open>
  IRExpr* d2 = differentiate_expr(arg2,diffenv);
  if(d2==NULL) return NULL;
  switch(op){
    DG_HANDLE_LOGICAL(And, and)
    DG_HANDLE_LOGICAL(Or, or)
    DG_HANDLE_LOGICAL(Xor, xor)
    ...
  \<close>
  \<^verbatim>\<open>differentiate_expr\<close> with a \<^verbatim>\<open>DiffEnv*\<close> argument is not defined in this file; it
  is the parameter \<open>differentiate_expr'\<close>, a function that returns an expression or the
  null pointer and may change a state of its own.

  An expression vector is terminated by the null pointer, so a null pointer among
  the arguments of \<^verbatim>\<open>mkIRExprVec_4\<close> ends the vector there. A null pointer as the
  operand of \<^verbatim>\<open>IRExpr_Unop\<close> or \<^verbatim>\<open>IRExpr_Binop\<close> gives a tree that is not an
  expression: the model has no result for it but the error \<open>Null_operand\<close>.
\<close>

datatype bar_error = Null_operand

definition mkIRExprVec :: "IRExpr option list \<Rightarrow> IRExpr list" where
  "mkIRExprVec xs = map the (takeWhile (\<lambda>x. x \<noteq> None) xs)"

definition dg_logical_call :: "string \<Rightarrow> IRExpr list \<Rightarrow> IRExpr" where
  "dg_logical_call op as = Iex_CCall (''dg_logical_'' @ op @ ''64'') Ity_I64 as"

text \<open>One round of the loops over the halves or quarters: the call on the selected parts.\<close>

definition dg_logical_part :: "string \<Rightarrow> IROp \<Rightarrow> IRExpr \<Rightarrow> IRExpr \<Rightarrow> IRExpr \<Rightarrow> IRExpr \<Rightarrow> IRExpr" where
  "dg_logical_part op selector arg1 d1 arg2 d2 =
     dg_logical_call op
       (mkIRExprVec [Some (Iex_Unop selector arg1), Some (Iex_Unop selector d1),
                     Some (Iex_Unop selector arg2), Some (Iex_Unop selector d2)])"

text \<open>
  \<^verbatim>\<open>DG_HANDLE_LOGICAL(Op, op)\<close>: the four case labels \<^verbatim>\<open>Iop_##Op##32\<close>,
  \<^verbatim>\<open>Iop_##Op##64\<close>, \<^verbatim>\<open>Iop_##Op##V128\<close> and \<^verbatim>\<open>Iop_##Op##V256\<close>. The result is
  \<open>None\<close> when the operator is none of the four, so that the switch goes on.
\<close>

definition DG_HANDLE_LOGICAL ::
  "string \<Rightarrow> string \<Rightarrow> (IRExpr \<Rightarrow> 'st \<Rightarrow> IRExpr option \<times> 'st) \<Rightarrow>
   IROp \<Rightarrow> IRExpr \<Rightarrow> IRExpr \<Rightarrow> IRExpr \<Rightarrow> 'st \<Rightarrow> ((bar_error + IRExpr) \<times> 'st) option" where
  "DG_HANDLE_LOGICAL Op op differentiate_expr' iop arg1 arg2 d2 st =
     (if iop = Iop (Op @ ''32'') then
        (case differentiate_expr' arg1 st of
           (None, st') \<Rightarrow> Some (Inl Null_operand, st')
         | (Some d1, st') \<Rightarrow>
             (let zero32 = Iex_Const (Ico_U32 0);
                  arg1_64 = Iex_Binop (Iop ''32HLto64'') zero32 arg1;
                  d1_64 = Iex_Binop (Iop ''32HLto64'') zero32 d1;
                  arg2_64 = Iex_Binop (Iop ''32HLto64'') zero32 arg2;
                  d2_64 = Iex_Binop (Iop ''32HLto64'') zero32 d2;
                  res = dg_logical_call op
                          (mkIRExprVec [Some arg1_64, Some d1_64, Some arg2_64, Some d2_64])
              in Some (Inr (Iex_Unop (Iop ''64to32'') res), st')))
      else if iop = Iop (Op @ ''64'') then
        (case differentiate_expr' arg1 st of
           (d1, st') \<Rightarrow>
             Some (Inr (dg_logical_call op (mkIRExprVec [Some arg1, d1, Some arg2, Some d2])), st'))
      else if iop = Iop (Op @ ''V128'') then
        (case differentiate_expr' arg1 st of
           (None, st') \<Rightarrow> Some (Inl Null_operand, st')
         | (Some d1, st') \<Rightarrow>
             (let res0 = dg_logical_part op (Iop ''V128to64'') arg1 d1 arg2 d2;
                  res1 = dg_logical_part op (Iop ''V128HIto64'') arg1 d1 arg2 d2
              in Some (Inr (Iex_Binop (Iop ''64HLtoV128'') res1 res0), st')))
      else if iop = Iop (Op @ ''V256'') then
        (case differentiate_expr' arg1 st of
           (None, st') \<Rightarrow> Some (Inl Null_operand, st')
         | (Some d1, st') \<Rightarrow>
             (let res0 = dg_logical_part op (Iop ''V256to64_0'') arg1 d1 arg2 d2;
                  res1 = dg_logical_part op (Iop ''V256to64_1'') arg1 d1 arg2 d2;
                  res2 = dg_logical_part op (Iop ''V256to64_2'') arg1 d1 arg2 d2;
                  res3 = dg_logical_part op (Iop ''V256to64_3'') arg1 d1 arg2 d2
              in Some (Inr (Iex_Qop (Iop ''64x4toV256'') res3 res2 res1 res0), st')))
      else None)"

text \<open>
  The start of the \<^verbatim>\<open>Iex_Binop\<close> branch of \<^verbatim>\<open>record_expr\<close> up to the three uses of
  the macro. The result is \<open>None\<close> when the operator is a later case of the switch;
  \<open>Inr None\<close> is the return of the null pointer.
\<close>

definition record_expr_Binop_logical ::
  "(IRExpr \<Rightarrow> 'st \<Rightarrow> IRExpr option \<times> 'st) \<Rightarrow> IROp \<Rightarrow> IRExpr \<Rightarrow> IRExpr \<Rightarrow> 'st \<Rightarrow>
   ((bar_error + IRExpr option) \<times> 'st) option" where
  "record_expr_Binop_logical differentiate_expr' iop arg1 arg2 st =
     (case differentiate_expr' arg2 st of
        (None, st1) \<Rightarrow> Some (Inr None, st1)
      | (Some d2, st1) \<Rightarrow>
          (case DG_HANDLE_LOGICAL ''And'' ''and'' differentiate_expr' iop arg1 arg2 d2 st1 of
             Some (r, st2) \<Rightarrow> Some (map_sum id Some r, st2)
           | None \<Rightarrow>
          (case DG_HANDLE_LOGICAL ''Or'' ''or'' differentiate_expr' iop arg1 arg2 d2 st1 of
             Some (r, st2) \<Rightarrow> Some (map_sum id Some r, st2)
           | None \<Rightarrow>
          (case DG_HANDLE_LOGICAL ''Xor'' ''xor'' differentiate_expr' iop arg1 arg2 d2 st1 of
             Some (r, st2) \<Rightarrow> Some (map_sum id Some r, st2)
           | None \<Rightarrow> None))))"

section \<open>Conditional selects in the recording rules (dg\_bar.c)\<close>

text \<open>
  The \<^verbatim>\<open>Iex_ITE\<close> branch of \<^verbatim>\<open>record_expr\<close>:
  \<^verbatim>\<open>
  } else if(ex->tag==Iex_ITE) {
    IRExpr* dtrue = differentiate_expr(ex->Iex.ITE.iftrue, diffenv);
    IRExpr* dfalse = differentiate_expr(ex->Iex.ITE.iffalse, diffenv);
    if(dtrue==NULL || dfalse==NULL) return NULL;
    else return IRExpr_ITE(ex->Iex.ITE.cond, dtrue, dfalse);
  }
  \<close>
  with \<^verbatim>\<open>differentiate_expr\<close> the parameter \<open>differentiate_expr'\<close> as above. Nothing is
  printed between the two differentiations and the test.
\<close>

definition record_expr_ITE ::
  "(IRExpr \<Rightarrow> 'st \<Rightarrow> IRExpr option \<times> 'st) \<Rightarrow> IRExpr \<Rightarrow> IRExpr \<Rightarrow> IRExpr \<Rightarrow> 'st \<Rightarrow>
   IRExpr option \<times> 'st" where
  "record_expr_ITE differentiate_expr' cond iftrue iffalse st =
     (case differentiate_expr' iftrue st of
        (dtrue, st1) \<Rightarrow>
          (case differentiate_expr' iffalse st1 of
             (dfalse, st2) \<Rightarrow>
               (case (dtrue, dfalse) of
                  (Some dt, Some df) \<Rightarrow> (Some (Iex_ITE cond dt df), st2)
                | _ \<Rightarrow> (None, st2))))"

section \<open>Example inputs\<close>

text \<open>Concrete inputs on which the functions are evaluated.\<close>

definition example_diffenv :: DiffEnv where
  "example_diffenv = \<lparr>t_offset = 1, total_sizeB = 100\<rparr>"

definition example_inst_state :: inst_state where
  "example_inst_state =
     \<lparr>sb_out = \<lparr>tyenv = [Ity_F64, Ity_F64], stmts = [], next = Iex_Const (Ico_U64 0),
                jumpkind = 0, offsIP = 0\<rparr>,
      printed = [], stmt_counter = 0\<rparr>"

fun example_rho_nan :: "IRExpr \<Rightarrow> val option" where
  "example_rho_nan (Iex_RdTmp t) = (if t = 0 then Some (VF64 FP_NaN) else Some (VF64 (FP_Finite 1)))"
| "example_rho_nan (Iex_Unop op e) = Some (VF64 (FP_Finite (- 1)))"
| "example_rho_nan _ = None"

fun example_rho_zero :: "IRExpr \<Rightarrow> val option" where
  "example_rho_zero (Iex_RdTmp t) = (if t = 0 then Some (VF64 (FP_Finite 0)) else Some (VF64 (FP_Finite 1)))"
| "example_rho_zero (Iex_Unop op e) = Some (VF64 (FP_Finite (- 1)))"
| "example_rho_zero _ = None"

definition no_helpers :: "string \<Rightarrow> val list \<Rightarrow> val option" where
  "no_helpers name vs = None"

definition example_shadow :: "IRExpr \<Rightarrow> unit \<Rightarrow> IRExpr option \<times> unit" where
  "example_shadow e st =
     ((case e of Iex_RdTmp t \<Rightarrow> Some (Iex_RdTmp (t + 10)) | _ \<Rightarrow> None), st)"

fun example_rho128 :: "IRExpr \<Rightarrow> val option" where
  "example_rho128 (Iex_RdTmp t) = Some (VV128 (word_cat (ucast t :: 64 word) (ucast t + 1 :: 64 word)))"
| "example_rho128 _ = None"

fun example_rho256 :: "IRExpr \<Rightarrow> val option" where
  "example_rho256 (Iex_RdTmp t) = Some (VV256 (ucast t))"
| "example_rho256 _ = None"

fun example_helpers :: "string \<Rightarrow> val list \<Rightarrow> val option" where
  "example_helpers name [VI64 x1, VI64 y1, VI64 x2, VI64 y2] = Some (VI64 ((x1 AND y2) OR (x2 AND y1)))"
| "example_helpers name _ = None"

text \<open>
  A block with the temporaries \<^verbatim>\<open>t0:I64\<close> (an address) and \<^verbatim>\<open>t1:F32\<close>, as
  \<^verbatim>\<open>nl_instrument\<close> sets it up for a statement \<^verbatim>\<open>t1 = LDle:F32(t0)\<close>: the shadow
  temporaries \<^verbatim>\<open>t2, t3\<close> follow, and \<^verbatim>\<open>t_offset\<close> is 2.
\<close>

definition example_load_diffenv :: DiffEnv where
  "example_load_diffenv = \<lparr>t_offset = 2, total_sizeB = 100\<rparr>"

definition example_load_state :: inst_state where
  "example_load_state =
     \<lparr>sb_out = \<lparr>tyenv = [Ity_I64, Ity_F32, Ity_I64, Ity_F32], stmts = [],
                next = Iex_Const (Ico_U64 0), jumpkind = 0, offsIP = 0\<rparr>,
      printed = [], stmt_counter = 1\<rparr>"



text \<open>
  The input block of the statements \<^verbatim>\<open>t0 = F32toF64(t1)\<close> and \<^verbatim>\<open>t2 = Not64(t3)\<close>, with
  \<^verbatim>\<open>t0:F64, t1:F32, t2:I64, t3:I64\<close>; neither operator has a rule in
  \<^verbatim>\<open>differentiate_expr\<close>. \<^verbatim>\<open>t_offset\<close> is 4.
\<close>

definition example_types :: "IRType list" where
  "example_types = [Ity_F64, Ity_F32, Ity_I64, Ity_I64]"

definition example_warn_diffenv :: DiffEnv where
  "example_warn_diffenv = \<lparr>t_offset = 4, total_sizeB = 100\<rparr>"

definition example_warn_state :: inst_state where
  "example_warn_state =
     \<lparr>sb_out = \<lparr>tyenv = [Ity_F64, Ity_F32, Ity_I64, Ity_I64, Ity_F64, Ity_F32, Ity_I64, Ity_I64],
                stmts = [], next = Iex_Const (Ico_U64 0), jumpkind = 0, offsIP = 0\<rparr>,
      printed = [], stmt_counter = 0\<rparr>"

fun example_typeOfIRExpr :: "IRExpr \<Rightarrow> IRType" where
  "example_typeOfIRExpr (Iex_Unop op e) = (if op = Iop ''F32toF64'' then Ity_F64 else Ity_I64)"
| "example_typeOfIRExpr _ = Ity_I64"


section \<open>Properties of the buffer\<close>

lemma grow_buffer_null:
  assumes "buffer_linexpr s = None" "n_linexpr s = 0"
  shows "grow_buffer uninit s =
     Some (s\<lparr>heap := (heap s)(next_block s \<mapsto> [uninit 0]), next_block := Suc (next_block s),
              buffer_linexpr := Some (next_block s), max_linexpr := 2 * max_linexpr s + 1\<rparr>)"
  using assms by (simp add: grow_buffer_def VG_malloc_def VG_free_def INT_MAX_def)

lemma grow_buffer_live:
  assumes b: "buffer_linexpr s = Some b" and arr: "heap s b = Some arr"
    and len: "int (length arr) = n_linexpr s" and fresh: "heap s (next_block s) = None"
    and rng: "2 * n_linexpr s + 1 \<le> INT_MAX"
  shows "grow_buffer uninit s =
     Some (s\<lparr>heap := (heap s)(next_block s \<mapsto>
                  arr @ drop (length arr) (map uninit [0..<2 * length arr + 1]), b := None),
              next_block := Suc (next_block s),
              buffer_linexpr := Some (next_block s), max_linexpr := 2 * max_linexpr s + 1\<rparr>)"
proof -
  have ne: "b \<noteq> next_block s" using arr fresh by auto
  have n: "nat (n_linexpr s) = length arr" "nat (2 * n_linexpr s + 1) = 2 * length arr + 1"
    using len by auto
  have pos: "\<not> (2 * n_linexpr s + 1 \<le> 0)" using len by linarith
  show ?thesis
  proof (cases "length arr = 0")
    case True
    then have "n_linexpr s = 0" using len by simp
    then show ?thesis using b arr ne True
      by (simp add: grow_buffer_def VG_malloc_def VG_free_def INT_MAX_def)
  next
    case False
    then have "0 < n_linexpr s" using len by linarith
    then show ?thesis using b arr ne rng pos n
      by (simp add: grow_buffer_def VG_malloc_def VG_memcpy_def VG_free_def)
  qed
qed

lemma newLinExpr_after_grow:
  assumes g: "grow_buffer uninit s = Some s1" and full: "n_linexpr s = max_linexpr s"
    and b1: "buffer_linexpr s1 = Some nb" and h1: "heap s1 nb = Some arr'"
    and n1: "n_linexpr s1 = n_linexpr s" and lt: "nat (n_linexpr s) < length arr'"
    and n0: "0 \<le> n_linexpr s"
  shows "newLinExpr uninit s =
     Some ((nb, n_linexpr s),
           s1\<lparr>heap := (heap s1)(nb \<mapsto>
                   arr'[nat (n_linexpr s) := (arr' ! nat (n_linexpr s))\<lparr>ndep := 0\<rparr>]),
               n_linexpr := n_linexpr s + 1\<rparr>)"
  using assms by (simp add: newLinExpr_def rd_def wr_def)

text \<open>
  C7. When the buffer is full (\<^verbatim>\<open>n_linexpr == max_linexpr\<close>) and \<^verbatim>\<open>2*n_linexpr+1\<close> is
  still an int, \<^verbatim>\<open>newLinExpr\<close> returns: the capacity has become \<open>2 * count + 1\<close>, each of
  the first \<open>count\<close> elements is equal to the element that was there before the call, the
  count has grown by exactly one, the returned pointer is the element at the old count of
  the new buffer and its \<^verbatim>\<open>ndep\<close> is 0. The state stays well-formed.
\<close>

theorem newLinExpr_grows_when_full:
  assumes wf: "state_wf s" and full: "n_linexpr s = max_linexpr s"
    and rng: "2 * n_linexpr s + 1 \<le> INT_MAX"
  shows "\<exists>p s'. newLinExpr uninit s = Some (p, s') \<and>
           max_linexpr s' = 2 * n_linexpr s + 1 \<and>
           buffer_capacity s' = nat (2 * n_linexpr s + 1) \<and>
           (\<forall>i. 0 \<le> i \<and> i < n_linexpr s \<longrightarrow>
                 buffer_at s i \<noteq> None \<and> buffer_at s' i = buffer_at s i) \<and>
           n_linexpr s' = n_linexpr s + 1 \<and>
           buffer_linexpr s' = Some (fst p) \<and> snd p = n_linexpr s \<and>
           map_option ndep (rd s' p) = Some 0 \<and>
           state_wf s'"
proof (cases "buffer_linexpr s")
  case None
  then have m0: "max_linexpr s = 0" and n0: "n_linexpr s = 0"
    using wf full by (simp_all add: state_wf_def)
  let ?s1 = "s\<lparr>heap := (heap s)(next_block s \<mapsto> [uninit 0]), next_block := Suc (next_block s),
              buffer_linexpr := Some (next_block s), max_linexpr := 2 * max_linexpr s + 1\<rparr>"
  have g: "grow_buffer uninit s = Some ?s1" using None n0 by (rule grow_buffer_null)
  have "newLinExpr uninit s =
     Some ((next_block s, n_linexpr s),
           ?s1\<lparr>heap := (heap ?s1)(next_block s \<mapsto>
                   [uninit 0][nat (n_linexpr s) := ([uninit 0] ! nat (n_linexpr s))\<lparr>ndep := 0\<rparr>]),
               n_linexpr := n_linexpr s + 1\<rparr>)"
    by (rule newLinExpr_after_grow [OF g full]) (simp_all add: n0)
  then show ?thesis using wf m0 n0
    by (auto simp: state_wf_def buffer_capacity_def buffer_at_def rd_def)
next
  case (Some b)
  then obtain arr where arr: "heap s b = Some arr" and len: "int (length arr) = max_linexpr s"
    using wf by (auto simp: state_wf_def split: option.splits)
  have len': "int (length arr) = n_linexpr s" using len full by simp
  have fresh: "heap s (next_block s) = None" using wf by (simp add: state_wf_def)
  have ne: "b \<noteq> next_block s" using arr fresh by auto
  let ?arr' = "arr @ drop (length arr) (map uninit [0..<2 * length arr + 1])"
  let ?s1 = "s\<lparr>heap := (heap s)(next_block s \<mapsto> ?arr', b := None),
              next_block := Suc (next_block s),
              buffer_linexpr := Some (next_block s), max_linexpr := 2 * max_linexpr s + 1\<rparr>"
  have g: "grow_buffer uninit s = Some ?s1"
    using Some arr len' fresh rng by (rule grow_buffer_live)
  have nn: "nat (n_linexpr s) = length arr" using len' by simp
  have h1: "heap ?s1 (next_block s) = Some ?arr'" using ne by simp
  have nl: "newLinExpr uninit s =
     Some ((next_block s, n_linexpr s),
           ?s1\<lparr>heap := (heap ?s1)(next_block s \<mapsto>
                   ?arr'[nat (n_linexpr s) := (?arr' ! nat (n_linexpr s))\<lparr>ndep := 0\<rparr>]),
               n_linexpr := n_linexpr s + 1\<rparr>)"
    by (rule newLinExpr_after_grow [OF g full _ h1]) (simp_all add: nn len' [symmetric])
  show ?thesis
    unfolding nl using wf ne len len' nn full
    apply (simp add: state_wf_def buffer_capacity_def buffer_at_def rd_def Some arr nth_append)
    apply (intro conjI allI impI)
    apply (auto simp: nth_append)
    done
qed

theorem newLinExpr_grows_when_full_witness:
  "state_wf example_full_state \<and>
   n_linexpr example_full_state = max_linexpr example_full_state \<and>
   2 * n_linexpr example_full_state + 1 \<le> INT_MAX \<and>
   (\<exists>p s'. newLinExpr (\<lambda>_. example_LinExpr) example_full_state = Some (p, s') \<and>
      max_linexpr s' = 3 \<and> buffer_capacity s' = 3 \<and>
      buffer_at s' 0 = buffer_at example_full_state 0 \<and>
      n_linexpr s' = 2 \<and> snd p = 1 \<and> map_option ndep (rd s' p) = Some 0)"
proof -
  have wf: "state_wf example_full_state"
    by (simp add: state_wf_def example_full_state_def)
  have full: "n_linexpr example_full_state = max_linexpr example_full_state"
    by (simp add: example_full_state_def)
  have rng: "2 * n_linexpr example_full_state + 1 \<le> INT_MAX"
    by (simp add: example_full_state_def INT_MAX_def)
  have n: "n_linexpr example_full_state = 1"
    by (simp add: example_full_state_def)
  from newLinExpr_grows_when_full [OF wf full rng, of "\<lambda>_. example_LinExpr"]
  obtain p s' where r: "newLinExpr (\<lambda>_. example_LinExpr) example_full_state = Some (p, s')"
      "max_linexpr s' = 2 * n_linexpr example_full_state + 1"
      "buffer_capacity s' = nat (2 * n_linexpr example_full_state + 1)"
      "\<forall>i. 0 \<le> i \<and> i < n_linexpr example_full_state \<longrightarrow>
           buffer_at example_full_state i \<noteq> None \<and> buffer_at s' i = buffer_at example_full_state i"
      "n_linexpr s' = n_linexpr example_full_state + 1"
      "snd p = n_linexpr example_full_state"
      "map_option ndep (rd s' p) = Some 0"
    by blast
  from r(4) have "buffer_at s' 0 = buffer_at example_full_state 0" by (simp add: n)
  with r wf full rng show ?thesis by (simp add: n)
qed

section \<open>Properties of the identifiers\<close>

lemma newid_iter: "((\<lambda>c. snd (newid c)) ^^ n) c = c + of_nat n"
  by (induction n) (simp_all add: newid_def)

lemma newid_call_eq: "1 \<le> k \<Longrightarrow> newid_call k = of_nat k"
proof -
  assume "1 \<le> k"
  then obtain n where k: "k = Suc n" by (cases k) auto
  have "newid_call k = fst (newid (next_identifier_init + of_nat n))"
    unfolding newid_call_def k by (simp only: newid_iter diff_Suc_1)
  then show ?thesis by (simp add: newid_def next_identifier_init_def k)
qed

text \<open>
  C9, as amended. The counter starts at 1 and every call of \<^verbatim>\<open>newid\<close> returns the
  counter and adds one to it, so for \<open>1 \<le> k < 2^64\<close> the \<open>k\<close>-th call returns \<open>k\<close>, which
  is not 0.
\<close>

theorem newid_sequential:
  assumes "1 \<le> k" and "k < 2 ^ 64"
  shows "unat (newid_call k) = k \<and> newid_call k \<noteq> 0"
proof -
  have e: "newid_call k = of_nat k" using assms(1) by (rule newid_call_eq)
  have u: "unat (of_nat k :: 64 word) = k" using assms(2) by (simp add: unat_of_nat)
  have "unat (newid_call k) = k" using e u by simp
  moreover have "newid_call k \<noteq> 0"
  proof
    assume "newid_call k = 0"
    then have "unat (newid_call k) = 0" by simp
    with \<open>unat (newid_call k) = k\<close> assms(1) show False by simp
  qed
  ultimately show ?thesis by simp
qed

theorem newid_sequential_witness:
  "(1::nat) \<le> 3 \<and> (3::nat) < 2 ^ 64 \<and> unat (newid_call 3) = 3 \<and> newid_call 3 \<noteq> 0"
  using newid_sequential [of 3] by simp

text \<open>
  C9 as stated fails: the counter is an unsigned 64-bit integer, and the call number
  \<open>2^64\<close> returns 0.
\<close>

theorem newid_wraps_to_zero: "newid_call (2 ^ 64) = 0 \<and> unat (newid_call (2 ^ 64)) \<noteq> 2 ^ 64"
  using newid_call_eq [of "2 ^ 64"] by simp

section \<open>Properties of the wide logical operations\<close>

lemma chunk128_cat:
  "chunk128 0 (Iop_64HLtoV128 hi lo) = lo" "chunk128 1 (Iop_64HLtoV128 hi lo) = hi"
  unfolding chunk128_def Iop_64HLtoV128_def
  by (rule bit_word_eqI; simp add: bit_ucast_iff bit_drop_bit_eq bit_word_cat_iff)+

lemma chunk256_cat:
  "chunk256 0 (Iop_64x4toV256 a3 a2 a1 a0) = a0"
  "chunk256 1 (Iop_64x4toV256 a3 a2 a1 a0) = a1"
  "chunk256 2 (Iop_64x4toV256 a3 a2 a1 a0) = a2"
  "chunk256 3 (Iop_64x4toV256 a3 a2 a1 a0) = a3"
  unfolding chunk256_def Iop_64x4toV256_def
  by (rule bit_word_eqI; simp add: bit_ucast_iff bit_drop_bit_eq bit_word_cat_iff)+

lemma eval_CCall:
  "eval \<rho> H (Iex_CCall name retty as) =
     (case the_all (map (eval \<rho> H) as) of None \<Rightarrow> None | Some vs \<Rightarrow> H name vs)"
  by simp

lemma eval_part:
  assumes "eval \<rho> H arg1 = Some (V a1)" "eval \<rho> H d1 = Some (V b1)"
          "eval \<rho> H arg2 = Some (V a2)" "eval \<rho> H d2 = Some (V b2)"
    and sel: "\<And>e w. eval \<rho> H e = Some (V w) \<Longrightarrow> eval \<rho> H (Iex_Unop selector e) = Some (VI64 (c w))"
  shows "eval \<rho> H (dg_logical_part op selector arg1 d1 arg2 d2) =
           H (''dg_logical_'' @ op @ ''64'') [VI64 (c a1), VI64 (c b1), VI64 (c a2), VI64 (c b2)]"
  using assms(1-4)
  by (simp add: dg_logical_part_def dg_logical_call_def mkIRExprVec_def sel eval_CCall del: eval.simps)

lemma logical_64:
  assumes "(Op, op) \<in> {(''And'', ''and''), (''Or'', ''or''), (''Xor'', ''xor'')}"
    and d2: "differentiate_expr' arg2 st = (Some d2, st1)"
    and d1: "differentiate_expr' arg1 st1 = (Some d1, st2)"
  shows "record_expr_Binop_logical differentiate_expr' (Iop (Op @ ''64'')) arg1 arg2 st =
           Some (Inr (Some (dg_logical_call op [arg1, d1, arg2, d2])), st2)"
  using assms by (auto simp: record_expr_Binop_logical_def DG_HANDLE_LOGICAL_def mkIRExprVec_def)

lemma logical_V128:
  assumes "(Op, op) \<in> {(''And'', ''and''), (''Or'', ''or''), (''Xor'', ''xor'')}"
    and d2: "differentiate_expr' arg2 st = (Some d2, st1)"
    and d1: "differentiate_expr' arg1 st1 = (Some d1, st2)"
  shows "record_expr_Binop_logical differentiate_expr' (Iop (Op @ ''V128'')) arg1 arg2 st =
           Some (Inr (Some (Iex_Binop (Iop ''64HLtoV128'')
                   (dg_logical_part op (Iop ''V128HIto64'') arg1 d1 arg2 d2)
                   (dg_logical_part op (Iop ''V128to64'') arg1 d1 arg2 d2))), st2)"
  using assms by (auto simp: record_expr_Binop_logical_def DG_HANDLE_LOGICAL_def)

lemma logical_V256:
  assumes "(Op, op) \<in> {(''And'', ''and''), (''Or'', ''or''), (''Xor'', ''xor'')}"
    and d2: "differentiate_expr' arg2 st = (Some d2, st1)"
    and d1: "differentiate_expr' arg1 st1 = (Some d1, st2)"
  shows "record_expr_Binop_logical differentiate_expr' (Iop (Op @ ''V256'')) arg1 arg2 st =
           Some (Inr (Some (Iex_Qop (Iop ''64x4toV256'')
                   (dg_logical_part op (Iop ''V256to64_3'') arg1 d1 arg2 d2)
                   (dg_logical_part op (Iop ''V256to64_2'') arg1 d1 arg2 d2)
                   (dg_logical_part op (Iop ''V256to64_1'') arg1 d1 arg2 d2)
                   (dg_logical_part op (Iop ''V256to64_0'') arg1 d1 arg2 d2))), st2)"
  using assms by (auto simp: record_expr_Binop_logical_def DG_HANDLE_LOGICAL_def)

lemma eval_sel128:
  "eval \<rho> H e = Some (VV128 w) \<Longrightarrow> eval \<rho> H (Iex_Unop (Iop ''V128to64'') e) = Some (VI64 (chunk128 0 w))"
  "eval \<rho> H e = Some (VV128 w) \<Longrightarrow> eval \<rho> H (Iex_Unop (Iop ''V128HIto64'') e) = Some (VI64 (chunk128 1 w))"
  by simp_all

lemma eval_sel256:
  "eval \<rho> H e = Some (VV256 w) \<Longrightarrow> eval \<rho> H (Iex_Unop (Iop ''V256to64_0'') e) = Some (VI64 (chunk256 0 w))"
  "eval \<rho> H e = Some (VV256 w) \<Longrightarrow> eval \<rho> H (Iex_Unop (Iop ''V256to64_1'') e) = Some (VI64 (chunk256 1 w))"
  "eval \<rho> H e = Some (VV256 w) \<Longrightarrow> eval \<rho> H (Iex_Unop (Iop ''V256to64_2'') e) = Some (VI64 (chunk256 2 w))"
  "eval \<rho> H e = Some (VV256 w) \<Longrightarrow> eval \<rho> H (Iex_Unop (Iop ''V256to64_3'') e) = Some (VI64 (chunk256 3 w))"
  by simp_all

lemma eval_64HLtoV128:
  "eval \<rho> H p1 = Some (VI64 hi) \<Longrightarrow> eval \<rho> H p0 = Some (VI64 lo) \<Longrightarrow>
   eval \<rho> H (Iex_Binop (Iop ''64HLtoV128'') p1 p0) = Some (VV128 (Iop_64HLtoV128 hi lo))"
  by simp

lemma eval_64x4toV256:
  "eval \<rho> H p3 = Some (VI64 a3) \<Longrightarrow> eval \<rho> H p2 = Some (VI64 a2) \<Longrightarrow>
   eval \<rho> H p1 = Some (VI64 a1) \<Longrightarrow> eval \<rho> H p0 = Some (VI64 a0) \<Longrightarrow>
   eval \<rho> H (Iex_Qop (Iop ''64x4toV256'') p3 p2 p1 p0) = Some (VV256 (Iop_64x4toV256 a3 a2 a1 a0))"
  by simp

lemma chunk_cat_Suc:
  "chunk128 (Suc 0) (Iop_64HLtoV128 hi lo) = hi"
  "chunk256 (Suc 0) (Iop_64x4toV256 a3 a2 a1 a0) = a1"
  using chunk128_cat(2) [of hi lo] chunk256_cat(2) [of a3 a2 a1 a0] by simp_all

lemma less_2_cases: "i < (2::nat) \<Longrightarrow> i = 0 \<or> i = 1"
  by arith

lemma less_4_cases: "i < (4::nat) \<Longrightarrow> i = 0 \<or> i = 1 \<or> i = 2 \<or> i = 3"
  by arith

lemma logical_V128_sem:
  assumes a: "eval \<rho> H arg1 = Some (VV128 a1)" "eval \<rho> H d1 = Some (VV128 b1)"
             "eval \<rho> H arg2 = Some (VV128 a2)" "eval \<rho> H d2 = Some (VV128 b2)"
    and h: "\<And>x1 y1 x2 y2. H (''dg_logical_'' @ op @ ''64'') [VI64 x1, VI64 y1, VI64 x2, VI64 y2] =
                Some (VI64 (h x1 y1 x2 y2))"
  shows "\<exists>r. eval \<rho> H (Iex_Binop (Iop ''64HLtoV128'')
                   (dg_logical_part op (Iop ''V128HIto64'') arg1 d1 arg2 d2)
                   (dg_logical_part op (Iop ''V128to64'') arg1 d1 arg2 d2)) = Some (VV128 r) \<and>
             (\<forall>i<2. chunk128 i r = h (chunk128 i a1) (chunk128 i b1) (chunk128 i a2) (chunk128 i b2))"
proof -
  have p0: "eval \<rho> H (dg_logical_part op (Iop ''V128to64'') arg1 d1 arg2 d2) =
              Some (VI64 (h (chunk128 0 a1) (chunk128 0 b1) (chunk128 0 a2) (chunk128 0 b2)))"
    by (simp only: eval_part [where V = VV128, OF a eval_sel128(1)] h)
  have p1: "eval \<rho> H (dg_logical_part op (Iop ''V128HIto64'') arg1 d1 arg2 d2) =
              Some (VI64 (h (chunk128 1 a1) (chunk128 1 b1) (chunk128 1 a2) (chunk128 1 b2)))"
    by (simp only: eval_part [where V = VV128, OF a eval_sel128(2)] h)
  have "\<forall>i<2. chunk128 i (Iop_64HLtoV128
            (h (chunk128 1 a1) (chunk128 1 b1) (chunk128 1 a2) (chunk128 1 b2))
            (h (chunk128 0 a1) (chunk128 0 b1) (chunk128 0 a2) (chunk128 0 b2))) =
          h (chunk128 i a1) (chunk128 i b1) (chunk128 i a2) (chunk128 i b2)"
    by (auto simp: chunk128_cat chunk_cat_Suc dest!: less_2_cases)
  with eval_64HLtoV128 [OF p1 p0] show ?thesis by blast
qed

lemma logical_V256_sem:
  assumes a: "eval \<rho> H arg1 = Some (VV256 a1)" "eval \<rho> H d1 = Some (VV256 b1)"
             "eval \<rho> H arg2 = Some (VV256 a2)" "eval \<rho> H d2 = Some (VV256 b2)"
    and h: "\<And>x1 y1 x2 y2. H (''dg_logical_'' @ op @ ''64'') [VI64 x1, VI64 y1, VI64 x2, VI64 y2] =
                Some (VI64 (h x1 y1 x2 y2))"
  shows "\<exists>r. eval \<rho> H (Iex_Qop (Iop ''64x4toV256'')
                   (dg_logical_part op (Iop ''V256to64_3'') arg1 d1 arg2 d2)
                   (dg_logical_part op (Iop ''V256to64_2'') arg1 d1 arg2 d2)
                   (dg_logical_part op (Iop ''V256to64_1'') arg1 d1 arg2 d2)
                   (dg_logical_part op (Iop ''V256to64_0'') arg1 d1 arg2 d2)) = Some (VV256 r) \<and>
             (\<forall>i<4. chunk256 i r = h (chunk256 i a1) (chunk256 i b1) (chunk256 i a2) (chunk256 i b2))"
proof -
  have p0: "eval \<rho> H (dg_logical_part op (Iop ''V256to64_0'') arg1 d1 arg2 d2) =
              Some (VI64 (h (chunk256 0 a1) (chunk256 0 b1) (chunk256 0 a2) (chunk256 0 b2)))"
    by (simp only: eval_part [where V = VV256, OF a eval_sel256(1)] h)
  have p1: "eval \<rho> H (dg_logical_part op (Iop ''V256to64_1'') arg1 d1 arg2 d2) =
              Some (VI64 (h (chunk256 1 a1) (chunk256 1 b1) (chunk256 1 a2) (chunk256 1 b2)))"
    by (simp only: eval_part [where V = VV256, OF a eval_sel256(2)] h)
  have p2: "eval \<rho> H (dg_logical_part op (Iop ''V256to64_2'') arg1 d1 arg2 d2) =
              Some (VI64 (h (chunk256 2 a1) (chunk256 2 b1) (chunk256 2 a2) (chunk256 2 b2)))"
    by (simp only: eval_part [where V = VV256, OF a eval_sel256(3)] h)
  have p3: "eval \<rho> H (dg_logical_part op (Iop ''V256to64_3'') arg1 d1 arg2 d2) =
              Some (VI64 (h (chunk256 3 a1) (chunk256 3 b1) (chunk256 3 a2) (chunk256 3 b2)))"
    by (simp only: eval_part [where V = VV256, OF a eval_sel256(4)] h)
  have "\<forall>i<4. chunk256 i (Iop_64x4toV256
            (h (chunk256 3 a1) (chunk256 3 b1) (chunk256 3 a2) (chunk256 3 b2))
            (h (chunk256 2 a1) (chunk256 2 b1) (chunk256 2 a2) (chunk256 2 b2))
            (h (chunk256 1 a1) (chunk256 1 b1) (chunk256 1 a2) (chunk256 1 b2))
            (h (chunk256 0 a1) (chunk256 0 b1) (chunk256 0 a2) (chunk256 0 b2))) =
          h (chunk256 i a1) (chunk256 i b1) (chunk256 i a2) (chunk256 i b2)"
    by (auto simp: chunk256_cat chunk_cat_Suc dest!: less_4_cases)
  with eval_64x4toV256 [OF p3 p2 p1 p0] show ?thesis by blast
qed

text \<open>
  C8. For \<^verbatim>\<open>And\<close>, \<^verbatim>\<open>Or\<close> and \<^verbatim>\<open>Xor\<close>, when both operand derivatives are available: the
  64-bit operation is one call of the helper \<^verbatim>\<open>dg_logical_and64\<close> (\<^verbatim>\<open>or\<close>, \<^verbatim>\<open>xor\<close>) on
  the operands and their derivatives; the V128 and V256 operations select the two, or
  four, 64-bit parts of each operand and of each derivative, call the same helper on the
  parts with the same number, and put the results together with \<^verbatim>\<open>Iop_64HLtoV128\<close>, or
  \<^verbatim>\<open>Iop_64x4toV256\<close>. Evaluated, the result is a value of the original width whose chunk
  \<open>i\<close> is the helper's result on the chunks \<open>i\<close> of the operands and derivatives.
\<close>

theorem logical_wide_chunks:
  fixes differentiate_expr' :: "IRExpr \<Rightarrow> 'st \<Rightarrow> IRExpr option \<times> 'st"
  assumes ops: "(Op, op) \<in> {(''And'', ''and''), (''Or'', ''or''), (''Xor'', ''xor'')}"
    and d2: "differentiate_expr' arg2 st = (Some d2, st1)"
    and d1: "differentiate_expr' arg1 st1 = (Some d1, st2)"
  defines "helper \<equiv> ''dg_logical_'' @ op @ ''64''"
  defines "part \<equiv> \<lambda>selector. Iex_CCall helper Ity_I64
             [Iex_Unop selector arg1, Iex_Unop selector d1, Iex_Unop selector arg2, Iex_Unop selector d2]"
  defines "r128 \<equiv> Iex_Binop (Iop ''64HLtoV128'') (part (Iop ''V128HIto64'')) (part (Iop ''V128to64''))"
  defines "r256 \<equiv> Iex_Qop (Iop ''64x4toV256'') (part (Iop ''V256to64_3'')) (part (Iop ''V256to64_2''))
                     (part (Iop ''V256to64_1'')) (part (Iop ''V256to64_0''))"
  shows
    "record_expr_Binop_logical differentiate_expr' (Iop (Op @ ''64'')) arg1 arg2 st =
       Some (Inr (Some (Iex_CCall helper Ity_I64 [arg1, d1, arg2, d2])), st2) \<and>
     record_expr_Binop_logical differentiate_expr' (Iop (Op @ ''V128'')) arg1 arg2 st =
       Some (Inr (Some r128), st2) \<and>
     record_expr_Binop_logical differentiate_expr' (Iop (Op @ ''V256'')) arg1 arg2 st =
       Some (Inr (Some r256), st2) \<and>
     (\<forall>\<rho> H h a1 b1 a2 b2.
        (\<forall>x1 y1 x2 y2. H helper [VI64 x1, VI64 y1, VI64 x2, VI64 y2] = Some (VI64 (h x1 y1 x2 y2))) \<and>
        eval \<rho> H arg1 = Some (VV128 a1) \<and> eval \<rho> H d1 = Some (VV128 b1) \<and>
        eval \<rho> H arg2 = Some (VV128 a2) \<and> eval \<rho> H d2 = Some (VV128 b2) \<longrightarrow>
        (\<exists>r. eval \<rho> H r128 = Some (VV128 r) \<and>
             (\<forall>i<2. chunk128 i r =
                      h (chunk128 i a1) (chunk128 i b1) (chunk128 i a2) (chunk128 i b2)))) \<and>
     (\<forall>\<rho> H h a1 b1 a2 b2.
        (\<forall>x1 y1 x2 y2. H helper [VI64 x1, VI64 y1, VI64 x2, VI64 y2] = Some (VI64 (h x1 y1 x2 y2))) \<and>
        eval \<rho> H arg1 = Some (VV256 a1) \<and> eval \<rho> H d1 = Some (VV256 b1) \<and>
        eval \<rho> H arg2 = Some (VV256 a2) \<and> eval \<rho> H d2 = Some (VV256 b2) \<longrightarrow>
        (\<exists>r. eval \<rho> H r256 = Some (VV256 r) \<and>
             (\<forall>i<4. chunk256 i r =
                      h (chunk256 i a1) (chunk256 i b1) (chunk256 i a2) (chunk256 i b2))))"
proof -
  have part: "part selector = dg_logical_part op selector arg1 d1 arg2 d2" for selector
    by (simp add: part_def helper_def dg_logical_part_def dg_logical_call_def mkIRExprVec_def)
  have c64: "record_expr_Binop_logical differentiate_expr' (Iop (Op @ ''64'')) arg1 arg2 st =
       Some (Inr (Some (Iex_CCall helper Ity_I64 [arg1, d1, arg2, d2])), st2)"
    using logical_64 [OF ops d2 d1] by (simp add: helper_def dg_logical_call_def)
  have c128: "record_expr_Binop_logical differentiate_expr' (Iop (Op @ ''V128'')) arg1 arg2 st =
       Some (Inr (Some r128), st2)"
    using logical_V128 [OF ops d2 d1] by (simp only: r128_def part)
  have c256: "record_expr_Binop_logical differentiate_expr' (Iop (Op @ ''V256'')) arg1 arg2 st =
       Some (Inr (Some r256), st2)"
    using logical_V256 [OF ops d2 d1] by (simp only: r256_def part)
  have s128: "\<exists>r. eval \<rho> H r128 = Some (VV128 r) \<and>
             (\<forall>i<2. chunk128 i r =
                      h (chunk128 i a1) (chunk128 i b1) (chunk128 i a2) (chunk128 i b2))"
    if "\<forall>x1 y1 x2 y2. H helper [VI64 x1, VI64 y1, VI64 x2, VI64 y2] = Some (VI64 (h x1 y1 x2 y2))"
      "eval \<rho> H arg1 = Some (VV128 a1)" "eval \<rho> H d1 = Some (VV128 b1)"
      "eval \<rho> H arg2 = Some (VV128 a2)" "eval \<rho> H d2 = Some (VV128 b2)"
    for \<rho> H h a1 b1 a2 b2
    unfolding r128_def part
    by (rule logical_V128_sem [OF that(2-5)]) (use that(1) in \<open>simp add: helper_def\<close>)
  have s256: "\<exists>r. eval \<rho> H r256 = Some (VV256 r) \<and>
             (\<forall>i<4. chunk256 i r =
                      h (chunk256 i a1) (chunk256 i b1) (chunk256 i a2) (chunk256 i b2))"
    if "\<forall>x1 y1 x2 y2. H helper [VI64 x1, VI64 y1, VI64 x2, VI64 y2] = Some (VI64 (h x1 y1 x2 y2))"
      "eval \<rho> H arg1 = Some (VV256 a1)" "eval \<rho> H d1 = Some (VV256 b1)"
      "eval \<rho> H arg2 = Some (VV256 a2)" "eval \<rho> H d2 = Some (VV256 b2)"
    for \<rho> H h a1 b1 a2 b2
    unfolding r256_def part
    by (rule logical_V256_sem [OF that(2-5)]) (use that(1) in \<open>simp add: helper_def\<close>)
  from c64 c128 c256 s128 s256 show ?thesis by blast
qed

theorem logical_wide_chunks_witness:
  "(''And'', ''and'') \<in> {(''And'', ''and''), (''Or'', ''or''), (''Xor'', ''xor'')} \<and>
   example_shadow (Iex_RdTmp 2) () = (Some (Iex_RdTmp 12), ()) \<and>
   example_shadow (Iex_RdTmp 1) () = (Some (Iex_RdTmp 11), ()) \<and>
   record_expr_Binop_logical example_shadow (Iop ''And64'') (Iex_RdTmp 1) (Iex_RdTmp 2) () =
     Some (Inr (Some (Iex_CCall ''dg_logical_and64'' Ity_I64
                        [Iex_RdTmp 1, Iex_RdTmp 11, Iex_RdTmp 2, Iex_RdTmp 12])), ()) \<and>
   record_expr_Binop_logical example_shadow (Iop ''AndV128'') (Iex_RdTmp 1) (Iex_RdTmp 2) () =
     Some (Inr (Some (Iex_Binop (Iop ''64HLtoV128'')
        (Iex_CCall ''dg_logical_and64'' Ity_I64
           [Iex_Unop (Iop ''V128HIto64'') (Iex_RdTmp 1), Iex_Unop (Iop ''V128HIto64'') (Iex_RdTmp 11),
            Iex_Unop (Iop ''V128HIto64'') (Iex_RdTmp 2), Iex_Unop (Iop ''V128HIto64'') (Iex_RdTmp 12)])
        (Iex_CCall ''dg_logical_and64'' Ity_I64
           [Iex_Unop (Iop ''V128to64'') (Iex_RdTmp 1), Iex_Unop (Iop ''V128to64'') (Iex_RdTmp 11),
            Iex_Unop (Iop ''V128to64'') (Iex_RdTmp 2), Iex_Unop (Iop ''V128to64'') (Iex_RdTmp 12)]))), ()) \<and>
   (\<exists>r. eval example_rho128 example_helpers
          (Iex_Binop (Iop ''64HLtoV128'')
            (Iex_CCall ''dg_logical_and64'' Ity_I64
               [Iex_Unop (Iop ''V128HIto64'') (Iex_RdTmp 1), Iex_Unop (Iop ''V128HIto64'') (Iex_RdTmp 11),
                Iex_Unop (Iop ''V128HIto64'') (Iex_RdTmp 2), Iex_Unop (Iop ''V128HIto64'') (Iex_RdTmp 12)])
            (Iex_CCall ''dg_logical_and64'' Ity_I64
               [Iex_Unop (Iop ''V128to64'') (Iex_RdTmp 1), Iex_Unop (Iop ''V128to64'') (Iex_RdTmp 11),
                Iex_Unop (Iop ''V128to64'') (Iex_RdTmp 2), Iex_Unop (Iop ''V128to64'') (Iex_RdTmp 12)])) =
          Some (VV128 r) \<and>
        chunk128 0 r = ((2 AND 13) OR (3 AND 12)) \<and>
        chunk128 1 r = ((1 AND 12) OR (2 AND 11))) \<and>
   (\<exists>r. eval example_rho256 example_helpers
          (Iex_Qop (Iop ''64x4toV256'')
            (Iex_CCall ''dg_logical_and64'' Ity_I64
               [Iex_Unop (Iop ''V256to64_3'') (Iex_RdTmp 1), Iex_Unop (Iop ''V256to64_3'') (Iex_RdTmp 11),
                Iex_Unop (Iop ''V256to64_3'') (Iex_RdTmp 2), Iex_Unop (Iop ''V256to64_3'') (Iex_RdTmp 12)])
            (Iex_CCall ''dg_logical_and64'' Ity_I64
               [Iex_Unop (Iop ''V256to64_2'') (Iex_RdTmp 1), Iex_Unop (Iop ''V256to64_2'') (Iex_RdTmp 11),
                Iex_Unop (Iop ''V256to64_2'') (Iex_RdTmp 2), Iex_Unop (Iop ''V256to64_2'') (Iex_RdTmp 12)])
            (Iex_CCall ''dg_logical_and64'' Ity_I64
               [Iex_Unop (Iop ''V256to64_1'') (Iex_RdTmp 1), Iex_Unop (Iop ''V256to64_1'') (Iex_RdTmp 11),
                Iex_Unop (Iop ''V256to64_1'') (Iex_RdTmp 2), Iex_Unop (Iop ''V256to64_1'') (Iex_RdTmp 12)])
            (Iex_CCall ''dg_logical_and64'' Ity_I64
               [Iex_Unop (Iop ''V256to64_0'') (Iex_RdTmp 1), Iex_Unop (Iop ''V256to64_0'') (Iex_RdTmp 11),
                Iex_Unop (Iop ''V256to64_0'') (Iex_RdTmp 2), Iex_Unop (Iop ''V256to64_0'') (Iex_RdTmp 12)])) =
          Some (VV256 r) \<and>
        chunk256 0 r = ((1 AND 12) OR (2 AND 11)) \<and> chunk256 3 r = 0)"
proof -
  let ?h = "\<lambda>x1 y1 x2 y2 :: 64 word. (x1 AND y2) OR (x2 AND y1)"
  let ?v = "\<lambda>t :: 32 word. word_cat (ucast t :: 64 word) (ucast t + 1 :: 64 word) :: 128 word"
  have m: "(''And'', ''and'') \<in> {(''And'', ''and''), (''Or'', ''or''), (''Xor'', ''xor'')}"
    by simp
  have d2: "example_shadow (Iex_RdTmp 2) () = (Some (Iex_RdTmp 12), ())"
    and d1: "example_shadow (Iex_RdTmp 1) () = (Some (Iex_RdTmp 11), ())"
    by (simp_all add: example_shadow_def)
  note th = logical_wide_chunks [where differentiate_expr' = example_shadow and Op = "''And''"
      and op = "''and''" and ?arg1.0 = "Iex_RdTmp 1" and ?arg2.0 = "Iex_RdTmp 2" and st = "()"
      and ?st1.0 = "()" and ?st2.0 = "()" and ?d1.0 = "Iex_RdTmp 11" and ?d2.0 = "Iex_RdTmp 12",
      OF m d2 d1, simplified append.simps]
  note syn64 = th [THEN conjunct1]
  note syn128 = th [THEN conjunct2, THEN conjunct1]
  note sem128 = th [THEN conjunct2, THEN conjunct2, THEN conjunct2, THEN conjunct1, rule_format,
      of example_helpers ?h example_rho128 "?v 1" "?v 11" "?v 2" "?v 12"]
  note sem256 = th [THEN conjunct2, THEN conjunct2, THEN conjunct2, THEN conjunct2, rule_format,
      of example_helpers ?h example_rho256 "ucast (1 :: 32 word)" "ucast (11 :: 32 word)"
         "ucast (2 :: 32 word)" "ucast (12 :: 32 word)"]
  have c128: "chunk128 0 (word_cat (a :: 64 word) (b :: 64 word)) = b"
             "chunk128 (Suc 0) (word_cat (a :: 64 word) (b :: 64 word)) = a" for a b
    using chunk128_cat [of a b] by (simp_all add: Iop_64HLtoV128_def)
  have p128: "(\<forall>x1 y1 x2 y2. example_helpers ''dg_logical_and64'' [VI64 x1, VI64 y1, VI64 x2, VI64 y2] =
             Some (VI64 (?h x1 y1 x2 y2))) \<and>
        eval example_rho128 example_helpers (Iex_RdTmp 1) = Some (VV128 (?v 1)) \<and>
        eval example_rho128 example_helpers (Iex_RdTmp 11) = Some (VV128 (?v 11)) \<and>
        eval example_rho128 example_helpers (Iex_RdTmp 2) = Some (VV128 (?v 2)) \<and>
        eval example_rho128 example_helpers (Iex_RdTmp 12) = Some (VV128 (?v 12))"
    by simp
  have p256: "(\<forall>x1 y1 x2 y2. example_helpers ''dg_logical_and64'' [VI64 x1, VI64 y1, VI64 x2, VI64 y2] =
             Some (VI64 (?h x1 y1 x2 y2))) \<and>
        eval example_rho256 example_helpers (Iex_RdTmp 1) = Some (VV256 (ucast (1 :: 32 word))) \<and>
        eval example_rho256 example_helpers (Iex_RdTmp 11) = Some (VV256 (ucast (11 :: 32 word))) \<and>
        eval example_rho256 example_helpers (Iex_RdTmp 2) = Some (VV256 (ucast (2 :: 32 word))) \<and>
        eval example_rho256 example_helpers (Iex_RdTmp 12) = Some (VV256 (ucast (12 :: 32 word)))"
    by simp
  from sem128 [OF p128] obtain r where r: "eval example_rho128 example_helpers
          (Iex_Binop (Iop ''64HLtoV128'')
            (Iex_CCall ''dg_logical_and64'' Ity_I64
               [Iex_Unop (Iop ''V128HIto64'') (Iex_RdTmp 1), Iex_Unop (Iop ''V128HIto64'') (Iex_RdTmp 11),
                Iex_Unop (Iop ''V128HIto64'') (Iex_RdTmp 2), Iex_Unop (Iop ''V128HIto64'') (Iex_RdTmp 12)])
            (Iex_CCall ''dg_logical_and64'' Ity_I64
               [Iex_Unop (Iop ''V128to64'') (Iex_RdTmp 1), Iex_Unop (Iop ''V128to64'') (Iex_RdTmp 11),
                Iex_Unop (Iop ''V128to64'') (Iex_RdTmp 2), Iex_Unop (Iop ''V128to64'') (Iex_RdTmp 12)])) = Some (VV128 r)"
     and rc: "\<And>i. i < 2 \<Longrightarrow> chunk128 i r =
               ?h (chunk128 i (?v 1)) (chunk128 i (?v 11)) (chunk128 i (?v 2)) (chunk128 i (?v 12))"
    by blast
  have "chunk128 0 r = ((2 AND 13) OR (3 AND 12))" "chunk128 1 r = ((1 AND 12) OR (2 AND 11))"
    using rc [of 0] rc [of 1] by (simp_all add: c128)
  with r have s128: "\<exists>r. eval example_rho128 example_helpers
          (Iex_Binop (Iop ''64HLtoV128'')
            (Iex_CCall ''dg_logical_and64'' Ity_I64
               [Iex_Unop (Iop ''V128HIto64'') (Iex_RdTmp 1), Iex_Unop (Iop ''V128HIto64'') (Iex_RdTmp 11),
                Iex_Unop (Iop ''V128HIto64'') (Iex_RdTmp 2), Iex_Unop (Iop ''V128HIto64'') (Iex_RdTmp 12)])
            (Iex_CCall ''dg_logical_and64'' Ity_I64
               [Iex_Unop (Iop ''V128to64'') (Iex_RdTmp 1), Iex_Unop (Iop ''V128to64'') (Iex_RdTmp 11),
                Iex_Unop (Iop ''V128to64'') (Iex_RdTmp 2), Iex_Unop (Iop ''V128to64'') (Iex_RdTmp 12)])) = Some (VV128 r) \<and>
        chunk128 0 r = ((2 AND 13) OR (3 AND 12)) \<and>
        chunk128 1 r = ((1 AND 12) OR (2 AND 11))"
    by blast
  from sem256 [OF p256] obtain q where q: "eval example_rho256 example_helpers
          (Iex_Qop (Iop ''64x4toV256'')
            (Iex_CCall ''dg_logical_and64'' Ity_I64
               [Iex_Unop (Iop ''V256to64_3'') (Iex_RdTmp 1), Iex_Unop (Iop ''V256to64_3'') (Iex_RdTmp 11),
                Iex_Unop (Iop ''V256to64_3'') (Iex_RdTmp 2), Iex_Unop (Iop ''V256to64_3'') (Iex_RdTmp 12)])
            (Iex_CCall ''dg_logical_and64'' Ity_I64
               [Iex_Unop (Iop ''V256to64_2'') (Iex_RdTmp 1), Iex_Unop (Iop ''V256to64_2'') (Iex_RdTmp 11),
                Iex_Unop (Iop ''V256to64_2'') (Iex_RdTmp 2), Iex_Unop (Iop ''V256to64_2'') (Iex_RdTmp 12)])
            (Iex_CCall ''dg_logical_and64'' Ity_I64
               [Iex_Unop (Iop ''V256to64_1'') (Iex_RdTmp 1), Iex_Unop (Iop ''V256to64_1'') (Iex_RdTmp 11),
                Iex_Unop (Iop ''V256to64_1'') (Iex_RdTmp 2), Iex_Unop (Iop ''V256to64_1'') (Iex_RdTmp 12)])
            (Iex_CCall ''dg_logical_and64'' Ity_I64
               [Iex_Unop (Iop ''V256to64_0'') (Iex_RdTmp 1), Iex_Unop (Iop ''V256to64_0'') (Iex_RdTmp 11),
                Iex_Unop (Iop ''V256to64_0'') (Iex_RdTmp 2), Iex_Unop (Iop ''V256to64_0'') (Iex_RdTmp 12)])) = Some (VV256 q)"
     and qc: "\<And>i. i < 4 \<Longrightarrow> chunk256 i q =
               ?h (chunk256 i (ucast (1 :: 32 word))) (chunk256 i (ucast (11 :: 32 word)))
                  (chunk256 i (ucast (2 :: 32 word))) (chunk256 i (ucast (12 :: 32 word)))"
    by blast
  have "chunk256 0 q = ((1 AND 12) OR (2 AND 11))" "chunk256 3 q = 0"
    using qc [of 0] qc [of 3] by (simp_all add: chunk256_def)
  with q have s256: "\<exists>r. eval example_rho256 example_helpers
          (Iex_Qop (Iop ''64x4toV256'')
            (Iex_CCall ''dg_logical_and64'' Ity_I64
               [Iex_Unop (Iop ''V256to64_3'') (Iex_RdTmp 1), Iex_Unop (Iop ''V256to64_3'') (Iex_RdTmp 11),
                Iex_Unop (Iop ''V256to64_3'') (Iex_RdTmp 2), Iex_Unop (Iop ''V256to64_3'') (Iex_RdTmp 12)])
            (Iex_CCall ''dg_logical_and64'' Ity_I64
               [Iex_Unop (Iop ''V256to64_2'') (Iex_RdTmp 1), Iex_Unop (Iop ''V256to64_2'') (Iex_RdTmp 11),
                Iex_Unop (Iop ''V256to64_2'') (Iex_RdTmp 2), Iex_Unop (Iop ''V256to64_2'') (Iex_RdTmp 12)])
            (Iex_CCall ''dg_logical_and64'' Ity_I64
               [Iex_Unop (Iop ''V256to64_1'') (Iex_RdTmp 1), Iex_Unop (Iop ''V256to64_1'') (Iex_RdTmp 11),
                Iex_Unop (Iop ''V256to64_1'') (Iex_RdTmp 2), Iex_Unop (Iop ''V256to64_1'') (Iex_RdTmp 12)])
            (Iex_CCall ''dg_logical_and64'' Ity_I64
               [Iex_Unop (Iop ''V256to64_0'') (Iex_RdTmp 1), Iex_Unop (Iop ''V256to64_0'') (Iex_RdTmp 11),
                Iex_Unop (Iop ''V256to64_0'') (Iex_RdTmp 2), Iex_Unop (Iop ''V256to64_0'') (Iex_RdTmp 12)])) = Some (VV256 r) \<and>
        chunk256 0 r = ((1 AND 12) OR (2 AND 11)) \<and> chunk256 3 r = 0"
    by blast
  from m d2 d1 syn64 syn128 s128 s256 show ?thesis by blast
qed

section \<open>Properties of the forward-mode rules\<close>

lemma CmpF_zero_bit:
  "bit (IRCmpFResult_code (CmpF xv (FP_Finite 0))) 0 \<longleftrightarrow> xv = FP_NaN \<or> fp_less xv (FP_Finite 0)"
  by (cases xv) (simp_all add: CmpF_def fp_less_def)

lemma abs_select_F64:
  assumes "eval \<rho> H x = Some (VF64 xv)"
  shows "eval \<rho> H (Iex_ITE (Iex_Unop (Iop ''32to1'') (Iex_Binop (Iop ''CmpF64'') x (Iex_Const (Ico_F64 0))))
                        n d) =
            (if xv = FP_NaN \<or> fp_less xv (FP_Finite 0) then eval \<rho> H n else eval \<rho> H d)"
  using assms by (simp add: CmpF_zero_bit)

lemma abs_select_F32:
  assumes "eval \<rho> H x = Some (VF32 xv)"
  shows "eval \<rho> H (Iex_ITE (Iex_Unop (Iop ''32to1'') (Iex_Binop (Iop ''CmpF32'') x (Iex_Const (Ico_F32 0))))
                        n d) =
            (if xv = FP_NaN \<or> fp_less xv (FP_Finite 0) then eval \<rho> H n else eval \<rho> H d)"
  using assms by (simp add: CmpF_zero_bit)

text \<open>
  C2, as amended. For \<^verbatim>\<open>AbsF64(x)\<close> and \<^verbatim>\<open>AbsF32(x)\<close> whose operand derivative \<open>d\<close> is
  available, the derivative is the select
  \<^verbatim>\<open>ITE(32to1(CmpF(x, 0.0)), Neg(d), d)\<close>. It has the value of \<^verbatim>\<open>Neg(d)\<close> when \<open>x\<close> is
  less than zero or a NaN (the comparison is then unordered, and the code of
  \<^verbatim>\<open>Ircr_UN\<close> has its lowest bit set), and the value of \<open>d\<close> when \<open>x\<close> is zero or
  greater than zero.
\<close>

theorem abs_derivative_select:
  assumes ops: "(op, cmp, neg, zero, VF) \<in>
            {(Iop ''AbsF64'', Iop ''CmpF64'', Iop ''NegF64'', Ico_F64 0, VF64),
             (Iop ''AbsF32'', Iop ''CmpF32'', Iop ''NegF32'', Ico_F32 0, VF32)}"
      and d: "differentiate_expr diffenv x s = Inr (Some d, s1)"
  shows "differentiate_expr diffenv (Iex_Unop op x) s =
           Inr (Some (Iex_ITE (Iex_Unop (Iop ''32to1'') (Iex_Binop cmp x (Iex_Const zero)))
                        (Iex_Unop neg d) d), s1) \<and>
         (\<forall>\<rho> H xv. eval \<rho> H x = Some (VF xv) \<longrightarrow>
            eval \<rho> H (Iex_ITE (Iex_Unop (Iop ''32to1'') (Iex_Binop cmp x (Iex_Const zero)))
                        (Iex_Unop neg d) d) =
            (if xv = FP_NaN \<or> fp_less xv (FP_Finite 0)
             then eval \<rho> H (Iex_Unop neg d) else eval \<rho> H d))"
proof -
  from ops consider
      (F64) "op = Iop ''AbsF64''" "cmp = Iop ''CmpF64''" "neg = Iop ''NegF64''" "zero = Ico_F64 0" "VF = VF64"
    | (F32) "op = Iop ''AbsF32''" "cmp = Iop ''CmpF32''" "neg = Iop ''NegF32''" "zero = Ico_F32 0" "VF = VF32"
    by auto
  then show ?thesis
  proof cases
    case F64
    have "differentiate_expr diffenv (Iex_Unop op x) s =
           Inr (Some (Iex_ITE (Iex_Unop (Iop ''32to1'') (Iex_Binop cmp x (Iex_Const zero)))
                        (Iex_Unop neg d) d), s1)"
      using d by (simp add: F64 differentiate_Unop_def)
    moreover have "\<forall>\<rho> H xv. eval \<rho> H x = Some (VF xv) \<longrightarrow>
            eval \<rho> H (Iex_ITE (Iex_Unop (Iop ''32to1'') (Iex_Binop cmp x (Iex_Const zero)))
                        (Iex_Unop neg d) d) =
            (if xv = FP_NaN \<or> fp_less xv (FP_Finite 0)
             then eval \<rho> H (Iex_Unop neg d) else eval \<rho> H d)"
      unfolding F64 by (intro allI impI) (rule abs_select_F64)
    ultimately show ?thesis by (rule conjI)
  next
    case F32
    have "differentiate_expr diffenv (Iex_Unop op x) s =
           Inr (Some (Iex_ITE (Iex_Unop (Iop ''32to1'') (Iex_Binop cmp x (Iex_Const zero)))
                        (Iex_Unop neg d) d), s1)"
      using d by (simp add: F32 differentiate_Unop_def)
    moreover have "\<forall>\<rho> H xv. eval \<rho> H x = Some (VF xv) \<longrightarrow>
            eval \<rho> H (Iex_ITE (Iex_Unop (Iop ''32to1'') (Iex_Binop cmp x (Iex_Const zero)))
                        (Iex_Unop neg d) d) =
            (if xv = FP_NaN \<or> fp_less xv (FP_Finite 0)
             then eval \<rho> H (Iex_Unop neg d) else eval \<rho> H d)"
      unfolding F32 by (intro allI impI) (rule abs_select_F32)
    ultimately show ?thesis by (rule conjI)
  qed
qed

theorem abs_derivative_select_witness:
  "differentiate_expr example_diffenv (Iex_RdTmp 0) example_inst_state =
     Inr (Some (Iex_RdTmp 1), example_inst_state) \<and>
   differentiate_expr example_diffenv (Iex_Unop (Iop ''AbsF64'') (Iex_RdTmp 0)) example_inst_state =
     Inr (Some (Iex_ITE (Iex_Unop (Iop ''32to1'')
                          (Iex_Binop (Iop ''CmpF64'') (Iex_RdTmp 0) (Iex_Const (Ico_F64 0))))
                  (Iex_Unop (Iop ''NegF64'') (Iex_RdTmp 1)) (Iex_RdTmp 1)), example_inst_state) \<and>
   eval example_rho_zero no_helpers
     (Iex_ITE (Iex_Unop (Iop ''32to1'')
                (Iex_Binop (Iop ''CmpF64'') (Iex_RdTmp 0) (Iex_Const (Ico_F64 0))))
        (Iex_Unop (Iop ''NegF64'') (Iex_RdTmp 1)) (Iex_RdTmp 1)) =
     Some (VF64 (FP_Finite 1))"
proof -
  have d: "differentiate_expr example_diffenv (Iex_RdTmp 0) example_inst_state =
     Inr (Some (Iex_RdTmp 1), example_inst_state)"
    by (simp add: example_diffenv_def)
  have m: "(Iop ''AbsF64'', Iop ''CmpF64'', Iop ''NegF64'', Ico_F64 0, VF64) \<in>
            {(Iop ''AbsF64'', Iop ''CmpF64'', Iop ''NegF64'', Ico_F64 0, VF64),
             (Iop ''AbsF32'', Iop ''CmpF32'', Iop ''NegF32'', Ico_F32 0, VF32)}"
    by simp
  note th = abs_derivative_select [OF m d]
  have x: "eval example_rho_zero no_helpers (Iex_RdTmp 0) = Some (VF64 (FP_Finite 0))"
    by simp
  have r: "eval example_rho_zero no_helpers (Iex_RdTmp 1) = Some (VF64 (FP_Finite 1))"
    by simp
  from th have "eval example_rho_zero no_helpers
     (Iex_ITE (Iex_Unop (Iop ''32to1'')
                (Iex_Binop (Iop ''CmpF64'') (Iex_RdTmp 0) (Iex_Const (Ico_F64 0))))
        (Iex_Unop (Iop ''NegF64'') (Iex_RdTmp 1)) (Iex_RdTmp 1)) =
     (if FP_Finite 0 = FP_NaN \<or> fp_less (FP_Finite 0) (FP_Finite 0)
      then eval example_rho_zero no_helpers (Iex_Unop (Iop ''NegF64'') (Iex_RdTmp 1))
      else eval example_rho_zero no_helpers (Iex_RdTmp 1))"
    using x by blast
  then have "eval example_rho_zero no_helpers
     (Iex_ITE (Iex_Unop (Iop ''32to1'')
                (Iex_Binop (Iop ''CmpF64'') (Iex_RdTmp 0) (Iex_Const (Ico_F64 0))))
        (Iex_Unop (Iop ''NegF64'') (Iex_RdTmp 1)) (Iex_RdTmp 1)) = Some (VF64 (FP_Finite 1))"
    by (simp add: fp_less_def r del: eval.simps)
  with d th show ?thesis by blast
qed

text \<open>
  C2 as stated fails for a NaN: the operand is not less than zero, and the select
  has the value of the negated derivative.
\<close>

theorem abs_derivative_NaN_negated:
  "differentiate_expr example_diffenv (Iex_Unop (Iop ''AbsF64'') (Iex_RdTmp 0)) example_inst_state =
     Inr (Some (Iex_ITE (Iex_Unop (Iop ''32to1'')
                          (Iex_Binop (Iop ''CmpF64'') (Iex_RdTmp 0) (Iex_Const (Ico_F64 0))))
                  (Iex_Unop (Iop ''NegF64'') (Iex_RdTmp 1)) (Iex_RdTmp 1)), example_inst_state) \<and>
   eval example_rho_nan no_helpers (Iex_RdTmp 0) = Some (VF64 FP_NaN) \<and>
   \<not> fp_less FP_NaN (FP_Finite 0) \<and>
   eval example_rho_nan no_helpers (Iex_RdTmp 1) = Some (VF64 (FP_Finite 1)) \<and>
   eval example_rho_nan no_helpers (Iex_Unop (Iop ''NegF64'') (Iex_RdTmp 1)) =
     Some (VF64 (FP_Finite (- 1))) \<and>
   eval example_rho_nan no_helpers
     (Iex_ITE (Iex_Unop (Iop ''32to1'')
                (Iex_Binop (Iop ''CmpF64'') (Iex_RdTmp 0) (Iex_Const (Ico_F64 0))))
        (Iex_Unop (Iop ''NegF64'') (Iex_RdTmp 1)) (Iex_RdTmp 1)) =
     Some (VF64 (FP_Finite (- 1)))"
  by (simp add: example_diffenv_def differentiate_Unop_def fp_less_def CmpF_def)

text \<open>
  The derivative of a load. For the six types that \<^verbatim>\<open>canConvertToI64\<close> accepts a dirty
  call of \<^verbatim>\<open>nl_Load_diffN\<close> (\<open>N\<close> the size in bytes) on the address of the load is
  emitted into a fresh 64-bit temporary, and a fresh temporary of the loaded type
  receives that temporary under the conversion of \<^verbatim>\<open>convertFromInteger\<close>; the
  derivative is the second temporary. For every other type but \<^verbatim>\<open>Ity_INVALID\<close> the
  derivative is the null pointer and nothing is emitted.
\<close>

lemma differentiate_expr_Load_supported:
  assumes "(type, N, conv) \<in>
             {(Ity_I8, ''1'', Iex_Unop (Iop ''64to8'')),
              (Ity_I16, ''2'', Iex_Unop (Iop ''64to16'')),
              (Ity_I32, ''4'', Iex_Unop (Iop ''64to32'')),
              (Ity_I64, ''8'', \<lambda>e. e),
              (Ity_F32, ''4'', Iex_Unop (Iop ''ReinterpI32asF32'')),
              (Ity_F64, ''8'', Iex_Unop (Iop ''ReinterpI64asF64''))}"
  shows "differentiate_expr diffenv (Iex_Load en type addr) s =
           Inr (Some (Iex_RdTmp (of_nat (length (tyenv (sb_out s)) + 1))),
                s\<lparr>sb_out := (sb_out s)
                    \<lparr>tyenv := tyenv (sb_out s) @ [Ity_I64, type],
                     stmts := stmts (sb_out s) @
                       [Ist_Dirty \<lparr>cee = ''nl_Load_diff'' @ N,
                                   guard = Iex_Const (Ico_U1 True),
                                   args = [addr], tmp = of_nat (length (tyenv (sb_out s)))\<rparr>,
                        Ist_WrTmp (of_nat (length (tyenv (sb_out s)) + 1))
                          (conv (Iex_RdTmp (of_nat (length (tyenv (sb_out s))))))]\<rparr>\<rparr>)"
  using assms
  by (auto simp add: emit_shadow_load_def fresh_temp_def newIRTemp_def emit_def addStmtToIRSB_def
        helper_for_size_def unsafeIRDirty_1_N_def)

lemma differentiate_expr_Load_unsupported:
  assumes "type \<notin> {Ity_I8, Ity_I16, Ity_I32, Ity_I64, Ity_F32, Ity_F64, Ity_INVALID}"
  shows "differentiate_expr diffenv (Iex_Load en type addr) s = Inr (None, s)"
  using assms by (cases type) simp_all

text \<open>
  Applied to a 64-bit temporary, the conversion of \<^verbatim>\<open>convertFromInteger\<close> has the type
  it converts to for \<^verbatim>\<open>I8, I16, I32, I64\<close> and \<^verbatim>\<open>F64\<close>. The conversion to an 8-byte
  integer, \<^verbatim>\<open>convertToInteger\<close>, is well-typed for all six types: for \<^verbatim>\<open>F32\<close> it
  widens the reinterpreted value with \<^verbatim>\<open>Iop_32Uto64\<close>.
\<close>

lemma convertFromInteger_well_typed:
  assumes "unat t < length types" and "types ! unat t = Ity_I64"
      and "type \<in> {Ity_I8, Ity_I16, Ity_I32, Ity_I64, Ity_F64}"
  shows "\<exists>e. convertFromInteger (Iex_RdTmp t) type = Some e \<and> tcExpr types e = Some type"
  using assms by (auto simp add: typeOfPrimop_def)

lemma convertToInteger_well_typed:
  assumes "unat t < length types" and "types ! unat t = type"
      and "type \<in> {Ity_I8, Ity_I16, Ity_I32, Ity_I64, Ity_F32, Ity_F64}"
  shows "\<exists>e. convertToInteger (Iex_RdTmp t) type = Inr e \<and> tcExpr types e = Some Ity_I64"
  using assms by (auto simp add: typeOfPrimop_def)

text \<open>
  C4. For a load of type \<^verbatim>\<open>Ity_F32\<close>, \<^verbatim>\<open>convertFromInteger\<close> applies
  \<^verbatim>\<open>Iop_ReinterpI32asF32\<close>, an operator on 32-bit integers, to the 64-bit temporary
  that holds the result of the helper. In the block of \<^verbatim>\<open>t1 = LDle:F32(t0)\<close> the
  differentiation of the load emits \<^verbatim>\<open>t4 = nl_Load_diff4(t0)\<close> with \<^verbatim>\<open>t4:I64\<close> and
  \<^verbatim>\<open>t5 = ReinterpI32asF32(t4)\<close> with \<^verbatim>\<open>t5:F32\<close>, which is not an expression of VEX: the
  8-byte result is not reinterpreted to the loaded type. The expression with the
  narrowing \<^verbatim>\<open>Iop_64to32\<close> in between has the type \<^verbatim>\<open>F32\<close>, and
  \<^verbatim>\<open>convertToInteger\<close> has the widening in the other direction.
\<close>

theorem differentiate_expr_Load_F32_ill_typed:
  "differentiate_expr example_load_diffenv (Iex_Load Iend_LE Ity_F32 (Iex_RdTmp 0)) example_load_state =
     Inr (Some (Iex_RdTmp 5),
          example_load_state\<lparr>sb_out := (sb_out example_load_state)
             \<lparr>tyenv := [Ity_I64, Ity_F32, Ity_I64, Ity_F32, Ity_I64, Ity_F32],
              stmts := [Ist_Dirty \<lparr>cee = ''nl_Load_diff4'', guard = Iex_Const (Ico_U1 True),
                                   args = [Iex_RdTmp 0], tmp = 4\<rparr>,
                        Ist_WrTmp 5 (Iex_Unop (Iop ''ReinterpI32asF32'') (Iex_RdTmp 4))]\<rparr>\<rparr>) \<and>
   tcExpr [Ity_I64, Ity_F32, Ity_I64, Ity_F32, Ity_I64, Ity_F32] (Iex_RdTmp 4) = Some Ity_I64 \<and>
   typeOfPrimop (Iop ''ReinterpI32asF32'') = Some (Ity_I32, Ity_F32) \<and>
   tcExpr [Ity_I64, Ity_F32, Ity_I64, Ity_F32, Ity_I64, Ity_F32]
     (Iex_Unop (Iop ''ReinterpI32asF32'') (Iex_RdTmp 4)) = None \<and>
   tcExpr [Ity_I64, Ity_F32, Ity_I64, Ity_F32, Ity_I64, Ity_F32]
     (Iex_Unop (Iop ''ReinterpI32asF32'') (Iex_Unop (Iop ''64to32'') (Iex_RdTmp 4))) = Some Ity_F32 \<and>
   convertToInteger (Iex_RdTmp 5) Ity_F32 =
     Inr (Iex_Unop (Iop ''32Uto64'') (Iex_Unop (Iop ''ReinterpF32asI32'') (Iex_RdTmp 5))) \<and>
   tcExpr [Ity_I64, Ity_F32, Ity_I64, Ity_F32, Ity_I64, Ity_F32]
     (Iex_Unop (Iop ''32Uto64'') (Iex_Unop (Iop ''ReinterpF32asI32'') (Iex_RdTmp 5))) = Some Ity_I64"
proof -
  have m: "(Ity_F32, ''4'', Iex_Unop (Iop ''ReinterpI32asF32'')) \<in>
             {(Ity_I8, ''1'', Iex_Unop (Iop ''64to8'')),
              (Ity_I16, ''2'', Iex_Unop (Iop ''64to16'')),
              (Ity_I32, ''4'', Iex_Unop (Iop ''64to32'')),
              (Ity_I64, ''8'', \<lambda>e. e),
              (Ity_F32, ''4'', Iex_Unop (Iop ''ReinterpI32asF32'')),
              (Ity_F64, ''8'', Iex_Unop (Iop ''ReinterpI64asF64''))}"
    by simp
  have d: "differentiate_expr example_load_diffenv (Iex_Load Iend_LE Ity_F32 (Iex_RdTmp 0))
             example_load_state =
     Inr (Some (Iex_RdTmp 5),
          example_load_state\<lparr>sb_out := (sb_out example_load_state)
             \<lparr>tyenv := [Ity_I64, Ity_F32, Ity_I64, Ity_F32, Ity_I64, Ity_F32],
              stmts := [Ist_Dirty \<lparr>cee = ''nl_Load_diff4'', guard = Iex_Const (Ico_U1 True),
                                   args = [Iex_RdTmp 0], tmp = 4\<rparr>,
                        Ist_WrTmp 5 (Iex_Unop (Iop ''ReinterpI32asF32'') (Iex_RdTmp 4))]\<rparr>\<rparr>)"
    unfolding differentiate_expr_Load_supported [OF m]
    by (simp add: example_load_state_def)
  have t: "tcExpr [Ity_I64, Ity_F32, Ity_I64, Ity_F32, Ity_I64, Ity_F32] (Iex_RdTmp 4) = Some Ity_I64"
    by simp
  have p: "typeOfPrimop (Iop ''ReinterpI32asF32'') = Some (Ity_I32, Ity_F32)"
    by (simp add: typeOfPrimop_def)
  have n: "tcExpr [Ity_I64, Ity_F32, Ity_I64, Ity_F32, Ity_I64, Ity_F32]
     (Iex_Unop (Iop ''ReinterpI32asF32'') (Iex_RdTmp 4)) = None"
    by (simp add: typeOfPrimop_def)
  have w: "tcExpr [Ity_I64, Ity_F32, Ity_I64, Ity_F32, Ity_I64, Ity_F32]
     (Iex_Unop (Iop ''ReinterpI32asF32'') (Iex_Unop (Iop ''64to32'') (Iex_RdTmp 4))) = Some Ity_F32"
    by (simp add: typeOfPrimop_def)
  have c: "convertToInteger (Iex_RdTmp 5) Ity_F32 =
     Inr (Iex_Unop (Iop ''32Uto64'') (Iex_Unop (Iop ''ReinterpF32asI32'') (Iex_RdTmp 5)))"
    by simp
  have v: "tcExpr [Ity_I64, Ity_F32, Ity_I64, Ity_F32, Ity_I64, Ity_F32]
     (Iex_Unop (Iop ''32Uto64'') (Iex_Unop (Iop ''ReinterpF32asI32'') (Iex_RdTmp 5))) = Some Ity_I64"
    by (simp add: typeOfPrimop_def)
  from d t p n w c v show ?thesis by (intro conjI)
qed

text \<open>
  The derivative of a select in \<^verbatim>\<open>differentiate_expr\<close>. Both branches are
  differentiated, the second in the state the first leaves. When both derivatives
  exist, they are printed and the derivative is the select between them under the
  original condition; no statement is emitted besides those of the two
  differentiations. When one of them is the null pointer, it is handed to the
  printer before the test for the null pointer, and the call does not return.
\<close>

lemma differentiate_expr_ITE_Some:
  assumes "differentiate_expr diffenv iftrue s = Inr (Some dt, s1)"
      and "differentiate_expr diffenv iffalse s1 = Inr (Some df, s2)"
  shows "differentiate_expr diffenv (Iex_ITE cond iftrue iffalse) s =
           Inr (Some (Iex_ITE cond dt df),
                s2\<lparr>printed := printed s2 @
                      [Printf ''generate ITE: iftrue='', PpIRExpr dt,
                       Printf ''iffalse='', PpIRExpr df, Printf []]\<rparr>)"
  using assms by (simp add: ppIRExpr_def print_def)

lemma differentiate_expr_ITE_None:
  assumes "differentiate_expr diffenv iftrue s = Inr (dtrue, s1)"
      and "differentiate_expr diffenv iffalse s1 = Inr (dfalse, s2)"
      and "dtrue = None \<or> dfalse = None"
  shows "differentiate_expr diffenv (Iex_ITE cond iftrue iffalse) s = Inl Null_dereference"
  using assms by (cases dtrue; cases dfalse) (simp_all add: ppIRExpr_def)

text \<open>
  The same branch of \<^verbatim>\<open>record_expr\<close> in \<^verbatim>\<open>dg_bar.c\<close> has no call of the printer: the
  derivative is the null pointer when one of the two derivatives is, and the select
  between them otherwise.
\<close>

lemma record_expr_ITE_rule:
  assumes "differentiate_expr' iftrue st = (dtrue, st1)"
      and "differentiate_expr' iffalse st1 = (dfalse, st2)"
  shows "record_expr_ITE differentiate_expr' cond iftrue iffalse st =
           (if dtrue = None \<or> dfalse = None then None
            else Some (Iex_ITE cond (the dtrue) (the dfalse)), st2)"
  using assms by (cases dtrue; cases dfalse) (simp_all add: record_expr_ITE_def)

lemma record_expr_ITE_example:
  "record_expr_ITE example_shadow (Iex_RdTmp 1) (Iex_Load Iend_LE Ity_V128 (Iex_RdTmp 0))
     (Iex_RdTmp 2) () = (None, ()) \<and>
   record_expr_ITE example_shadow (Iex_RdTmp 1) (Iex_RdTmp 2) (Iex_RdTmp 2) () =
     (Some (Iex_ITE (Iex_RdTmp 1) (Iex_RdTmp 12) (Iex_RdTmp 12)), ())"
  by (simp add: record_expr_ITE_def example_shadow_def)


section \<open>Properties of the statement handlers\<close>

lemma differentiate_or_warn_None:
  assumes "differentiate_expr diffenv data s = Inr (None, s1)"
  shows "differentiate_or_warn data diffenv warn operation s =
           Inr (None, s1\<lparr>printed := printed s1 @
                  (if warn
                   then [Printf ''Warning: Expression'', PpIRExpr data,
                         Printf (''could not be differentiated in '' @ operation @ ''.'')]
                   else [])\<rparr>)"
  using assms by (simp add: differentiate_or_warn_def ppIRExpr_def print_def)

text \<open>
  C3. When the differentiation of the data of a statement returns the null pointer,
  \<^verbatim>\<open>differentiate_or_warn\<close> returns the null pointer and prints the three parts of the
  warning (the text \<^verbatim>\<open>Warning: Expression\<close>, the expression, and the text
  \<^verbatim>\<open>could not be differentiated in\<close> with the name of the operation) exactly when its
  flag is set, and nothing otherwise. The handler then appends nothing: the output
  block is the block that the differentiation left, followed by the original
  statement, and what has been printed is what the differentiation left, followed by
  the warning exactly when the type that decides the flag is \<^verbatim>\<open>Ity_F64\<close> or
  \<^verbatim>\<open>Ity_F32\<close>: the type of the written temporary for \<^verbatim>\<open>WrTmp\<close> and \<^verbatim>\<open>LoadG\<close>, the type
  of the data for \<^verbatim>\<open>Put\<close>, \<^verbatim>\<open>PutI\<close>, \<^verbatim>\<open>Store\<close> and \<^verbatim>\<open>StoreG\<close>. Stores and guarded
  loads differentiate only data of a type that \<^verbatim>\<open>canConvertToI64\<close> accepts.
\<close>

theorem unsupported_destination_not_instrumented:
  assumes none: "differentiate_expr diffenv data (s\<lparr>stmt_counter := stmt_counter s + 1\<rparr>) = Inr (None, s1)"
  shows
    "(\<forall>warn operation.
        differentiate_or_warn data diffenv warn operation (s\<lparr>stmt_counter := stmt_counter s + 1\<rparr>) =
          Inr (None, s1\<lparr>printed := printed s1 @
                 (if warn
                  then [Printf ''Warning: Expression'', PpIRExpr data,
                        Printf (''could not be differentiated in '' @ operation @ ''.'')]
                  else [])\<rparr>)) \<and>
     (typeOfIRTemp types t = Inr type \<longrightarrow>
        instrument_stmt typeOfIRExpr types diffenv (Ist_WrTmp t data) s =
          Inr (s1\<lparr>sb_out := (sb_out s1)\<lparr>stmts := stmts (sb_out s1) @ [Ist_WrTmp t data]\<rparr>,
                  printed := printed s1 @
                    (if type = Ity_F64 \<or> type = Ity_F32
                     then [Printf ''Warning: Expression'', PpIRExpr data,
                           Printf ''could not be differentiated in WrTmp.'']
                     else [])\<rparr>)) \<and>
     instrument_stmt typeOfIRExpr types diffenv (Ist_Put offset data) s =
          Inr (s1\<lparr>sb_out := (sb_out s1)\<lparr>stmts := stmts (sb_out s1) @ [Ist_Put offset data]\<rparr>,
                  printed := printed s1 @
                    (if typeOfIRExpr data = Ity_F64 \<or> typeOfIRExpr data = Ity_F32
                     then [Printf ''Warning: Expression'', PpIRExpr data,
                           Printf ''could not be differentiated in Put.'']
                     else [])\<rparr>) \<and>
     (putI_data puti = data \<longrightarrow>
        instrument_stmt typeOfIRExpr types diffenv (Ist_PutI puti) s =
          Inr (s1\<lparr>sb_out := (sb_out s1)\<lparr>stmts := stmts (sb_out s1) @ [Ist_PutI puti]\<rparr>,
                  printed := printed s1 @
                    (if typeOfIRExpr data = Ity_F64 \<or> typeOfIRExpr data = Ity_F32
                     then [Printf ''Warning: Expression'', PpIRExpr data,
                           Printf ''could not be differentiated in PutI.'']
                     else [])\<rparr>)) \<and>
     (canConvertToI64 (typeOfIRExpr data) = Inr True \<longrightarrow>
        instrument_stmt typeOfIRExpr types diffenv (Ist_Store en addr data) s =
          Inr (s1\<lparr>sb_out := (sb_out s1)\<lparr>stmts := stmts (sb_out s1) @ [Ist_Store en addr data]\<rparr>,
                  printed := printed s1 @
                    (if typeOfIRExpr data = Ity_F64 \<or> typeOfIRExpr data = Ity_F32
                     then [Printf ''Warning: Expression'', PpIRExpr data,
                           Printf ''could not be differentiated in Store.'']
                     else [])\<rparr>)) \<and>
     (sg_data sg = data \<and> canConvertToI64 (typeOfIRExpr data) = Inr True \<longrightarrow>
        instrument_stmt typeOfIRExpr types diffenv (Ist_StoreG sg) s =
          Inr (s1\<lparr>sb_out := (sb_out s1)\<lparr>stmts := stmts (sb_out s1) @ [Ist_StoreG sg]\<rparr>,
                  printed := printed s1 @
                    (if typeOfIRExpr data = Ity_F64 \<or> typeOfIRExpr data = Ity_F32
                     then [Printf ''Warning: Expression'', PpIRExpr data,
                           Printf ''could not be differentiated in Store.'']
                     else [])\<rparr>)) \<and>
     (lg_alt lg = data \<and> typeOfIRTemp types (lg_dst lg) = Inr type \<and> canConvertToI64 type = Inr True \<and> (type = Ity_F64 \<longrightarrow> lg_cvt lg = ILGop_Ident64) \<and> (type = Ity_F32 \<longrightarrow> lg_cvt lg = ILGop_Ident32) \<longrightarrow>
        instrument_stmt typeOfIRExpr types diffenv (Ist_LoadG lg) s =
          Inr (s1\<lparr>sb_out := (sb_out s1)\<lparr>stmts := stmts (sb_out s1) @ [Ist_LoadG lg]\<rparr>,
                  printed := printed s1 @
                    (if type = Ity_F64 \<or> type = Ity_F32
                     then [Printf ''Warning: Expression'', PpIRExpr data,
                           Printf ''could not be differentiated in alternative-LoadG.'']
                     else [])\<rparr>))"
proof -
  note w = differentiate_or_warn_None [OF none]
  have 0: "\<forall>warn operation.
        differentiate_or_warn data diffenv warn operation (s\<lparr>stmt_counter := stmt_counter s + 1\<rparr>) =
          Inr (None, s1\<lparr>printed := printed s1 @
                 (if warn
                  then [Printf ''Warning: Expression'', PpIRExpr data,
                        Printf (''could not be differentiated in '' @ operation @ ''.'')]
                  else [])\<rparr>)"
    by (intro allI) (rule w)
  have 1: "typeOfIRTemp types t = Inr type \<Longrightarrow>
        instrument_stmt typeOfIRExpr types diffenv (Ist_WrTmp t data) s =
          Inr (s1\<lparr>sb_out := (sb_out s1)\<lparr>stmts := stmts (sb_out s1) @ [Ist_WrTmp t data]\<rparr>,
                  printed := printed s1 @
                    (if type = Ity_F64 \<or> type = Ity_F32
                     then [Printf ''Warning: Expression'', PpIRExpr data,
                           Printf ''could not be differentiated in WrTmp.'']
                     else [])\<rparr>)"
    by (simp add: instrument_stmt_def handle_WrTmp_def w is_float_def emit_def addStmtToIRSB_def)
  have 2: "instrument_stmt typeOfIRExpr types diffenv (Ist_Put offset data) s =
          Inr (s1\<lparr>sb_out := (sb_out s1)\<lparr>stmts := stmts (sb_out s1) @ [Ist_Put offset data]\<rparr>,
                  printed := printed s1 @
                    (if typeOfIRExpr data = Ity_F64 \<or> typeOfIRExpr data = Ity_F32
                     then [Printf ''Warning: Expression'', PpIRExpr data,
                           Printf ''could not be differentiated in Put.'']
                     else [])\<rparr>)"
    by (simp add: instrument_stmt_def handle_Put_def w is_float_def emit_def addStmtToIRSB_def)
  have 3: "putI_data puti = data \<Longrightarrow>
        instrument_stmt typeOfIRExpr types diffenv (Ist_PutI puti) s =
          Inr (s1\<lparr>sb_out := (sb_out s1)\<lparr>stmts := stmts (sb_out s1) @ [Ist_PutI puti]\<rparr>,
                  printed := printed s1 @
                    (if typeOfIRExpr data = Ity_F64 \<or> typeOfIRExpr data = Ity_F32
                     then [Printf ''Warning: Expression'', PpIRExpr data,
                           Printf ''could not be differentiated in PutI.'']
                     else [])\<rparr>)"
    by (simp add: instrument_stmt_def handle_PutI_def w is_float_def emit_def addStmtToIRSB_def)
  have 4: "canConvertToI64 (typeOfIRExpr data) = Inr True \<Longrightarrow>
        instrument_stmt typeOfIRExpr types diffenv (Ist_Store en addr data) s =
          Inr (s1\<lparr>sb_out := (sb_out s1)\<lparr>stmts := stmts (sb_out s1) @ [Ist_Store en addr data]\<rparr>,
                  printed := printed s1 @
                    (if typeOfIRExpr data = Ity_F64 \<or> typeOfIRExpr data = Ity_F32
                     then [Printf ''Warning: Expression'', PpIRExpr data,
                           Printf ''could not be differentiated in Store.'']
                     else [])\<rparr>)"
    by (simp add: instrument_stmt_def handle_Store_def w is_float_def emit_def addStmtToIRSB_def)
  have 5: "sg_data sg = data \<Longrightarrow> canConvertToI64 (typeOfIRExpr data) = Inr True \<Longrightarrow>
        instrument_stmt typeOfIRExpr types diffenv (Ist_StoreG sg) s =
          Inr (s1\<lparr>sb_out := (sb_out s1)\<lparr>stmts := stmts (sb_out s1) @ [Ist_StoreG sg]\<rparr>,
                  printed := printed s1 @
                    (if typeOfIRExpr data = Ity_F64 \<or> typeOfIRExpr data = Ity_F32
                     then [Printf ''Warning: Expression'', PpIRExpr data,
                           Printf ''could not be differentiated in Store.'']
                     else [])\<rparr>)"
    by (simp add: instrument_stmt_def handle_Store_def w is_float_def emit_def addStmtToIRSB_def)
  have 6: "lg_alt lg = data \<Longrightarrow> typeOfIRTemp types (lg_dst lg) = Inr type \<Longrightarrow> canConvertToI64 type = Inr True \<Longrightarrow> (type = Ity_F64 \<longrightarrow> lg_cvt lg = ILGop_Ident64) \<Longrightarrow> (type = Ity_F32 \<longrightarrow> lg_cvt lg = ILGop_Ident32) \<Longrightarrow>
        instrument_stmt typeOfIRExpr types diffenv (Ist_LoadG lg) s =
          Inr (s1\<lparr>sb_out := (sb_out s1)\<lparr>stmts := stmts (sb_out s1) @ [Ist_LoadG lg]\<rparr>,
                  printed := printed s1 @
                    (if type = Ity_F64 \<or> type = Ity_F32
                     then [Printf ''Warning: Expression'', PpIRExpr data,
                           Printf ''could not be differentiated in alternative-LoadG.'']
                     else [])\<rparr>)"
    by (simp add: instrument_stmt_def handle_LoadG_def w is_float_def emit_def addStmtToIRSB_def)
  from 0 1 2 3 4 5 6 show ?thesis by blast
qed

theorem unsupported_destination_not_instrumented_witness:
  "differentiate_expr example_warn_diffenv (Iex_Unop (Iop ''F32toF64'') (Iex_RdTmp 1))
     (example_warn_state\<lparr>stmt_counter := stmt_counter example_warn_state + 1\<rparr>) =
     Inr (None, example_warn_state\<lparr>stmt_counter := 1\<rparr>) \<and>
   differentiate_expr example_warn_diffenv (Iex_Unop (Iop ''Not64'') (Iex_RdTmp 3))
     (example_warn_state\<lparr>stmt_counter := stmt_counter example_warn_state + 1\<rparr>) =
     Inr (None, example_warn_state\<lparr>stmt_counter := 1\<rparr>) \<and>
   instrument_stmt example_typeOfIRExpr example_types example_warn_diffenv
       (Ist_WrTmp 0 (Iex_Unop (Iop ''F32toF64'') (Iex_RdTmp 1))) example_warn_state =
     Inr (example_warn_state
            \<lparr>sb_out := (sb_out example_warn_state)
                \<lparr>stmts := [Ist_WrTmp 0 (Iex_Unop (Iop ''F32toF64'') (Iex_RdTmp 1))]\<rparr>,
             printed := [Printf ''Warning: Expression'',
                         PpIRExpr (Iex_Unop (Iop ''F32toF64'') (Iex_RdTmp 1)),
                         Printf ''could not be differentiated in WrTmp.''],
             stmt_counter := 1\<rparr>) \<and>
   instrument_stmt example_typeOfIRExpr example_types example_warn_diffenv
       (Ist_WrTmp 2 (Iex_Unop (Iop ''Not64'') (Iex_RdTmp 3))) example_warn_state =
     Inr (example_warn_state
            \<lparr>sb_out := (sb_out example_warn_state)
                \<lparr>stmts := [Ist_WrTmp 2 (Iex_Unop (Iop ''Not64'') (Iex_RdTmp 3))]\<rparr>,
             printed := [], stmt_counter := 1\<rparr>) \<and>
   instrument_stmt example_typeOfIRExpr example_types example_warn_diffenv
       (Ist_Put 16 (Iex_Unop (Iop ''F32toF64'') (Iex_RdTmp 1))) example_warn_state =
     Inr (example_warn_state
            \<lparr>sb_out := (sb_out example_warn_state)
                \<lparr>stmts := [Ist_Put 16 (Iex_Unop (Iop ''F32toF64'') (Iex_RdTmp 1))]\<rparr>,
             printed := [Printf ''Warning: Expression'',
                         PpIRExpr (Iex_Unop (Iop ''F32toF64'') (Iex_RdTmp 1)),
                         Printf ''could not be differentiated in Put.''],
             stmt_counter := 1\<rparr>) \<and>
   instrument_stmt example_typeOfIRExpr example_types example_warn_diffenv
       (Ist_Store Iend_LE (Iex_RdTmp 2) (Iex_Unop (Iop ''Not64'') (Iex_RdTmp 3))) example_warn_state =
     Inr (example_warn_state
            \<lparr>sb_out := (sb_out example_warn_state)
                \<lparr>stmts := [Ist_Store Iend_LE (Iex_RdTmp 2) (Iex_Unop (Iop ''Not64'') (Iex_RdTmp 3))]\<rparr>,
             printed := [], stmt_counter := 1\<rparr>)"
proof -
  have nf: "differentiate_expr example_warn_diffenv (Iex_Unop (Iop ''F32toF64'') (Iex_RdTmp 1))
     (example_warn_state\<lparr>stmt_counter := stmt_counter example_warn_state + 1\<rparr>) =
     Inr (None, example_warn_state\<lparr>stmt_counter := 1\<rparr>)"
    by (simp add: example_warn_state_def differentiate_Unop_def)
  have ni: "differentiate_expr example_warn_diffenv (Iex_Unop (Iop ''Not64'') (Iex_RdTmp 3))
     (example_warn_state\<lparr>stmt_counter := stmt_counter example_warn_state + 1\<rparr>) =
     Inr (None, example_warn_state\<lparr>stmt_counter := 1\<rparr>)"
    by (simp add: example_warn_state_def differentiate_Unop_def)
  have t0: "typeOfIRTemp example_types 0 = Inr Ity_F64"
    and t2: "typeOfIRTemp example_types 2 = Inr Ity_I64"
    by (simp_all add: typeOfIRTemp_def example_types_def)
  note thf = unsupported_destination_not_instrumented
      [OF nf, of example_types 0 Ity_F64 example_typeOfIRExpr 16]
  note thi = unsupported_destination_not_instrumented
      [OF ni, of example_types 2 Ity_I64 example_typeOfIRExpr _ _ Iend_LE "Iex_RdTmp 2"]
  have a: "instrument_stmt example_typeOfIRExpr example_types example_warn_diffenv
       (Ist_WrTmp 0 (Iex_Unop (Iop ''F32toF64'') (Iex_RdTmp 1))) example_warn_state =
     Inr (example_warn_state
            \<lparr>sb_out := (sb_out example_warn_state)
                \<lparr>stmts := [Ist_WrTmp 0 (Iex_Unop (Iop ''F32toF64'') (Iex_RdTmp 1))]\<rparr>,
             printed := [Printf ''Warning: Expression'',
                         PpIRExpr (Iex_Unop (Iop ''F32toF64'') (Iex_RdTmp 1)),
                         Printf ''could not be differentiated in WrTmp.''],
             stmt_counter := 1\<rparr>)"
    using thf t0 by (simp add: example_warn_state_def del: differentiate_expr.simps)
  have b: "instrument_stmt example_typeOfIRExpr example_types example_warn_diffenv
       (Ist_WrTmp 2 (Iex_Unop (Iop ''Not64'') (Iex_RdTmp 3))) example_warn_state =
     Inr (example_warn_state
            \<lparr>sb_out := (sb_out example_warn_state)
                \<lparr>stmts := [Ist_WrTmp 2 (Iex_Unop (Iop ''Not64'') (Iex_RdTmp 3))]\<rparr>,
             printed := [], stmt_counter := 1\<rparr>)"
    using thi t2 by (simp add: example_warn_state_def del: differentiate_expr.simps)
  have c: "instrument_stmt example_typeOfIRExpr example_types example_warn_diffenv
       (Ist_Put 16 (Iex_Unop (Iop ''F32toF64'') (Iex_RdTmp 1))) example_warn_state =
     Inr (example_warn_state
            \<lparr>sb_out := (sb_out example_warn_state)
                \<lparr>stmts := [Ist_Put 16 (Iex_Unop (Iop ''F32toF64'') (Iex_RdTmp 1))]\<rparr>,
             printed := [Printf ''Warning: Expression'',
                         PpIRExpr (Iex_Unop (Iop ''F32toF64'') (Iex_RdTmp 1)),
                         Printf ''could not be differentiated in Put.''],
             stmt_counter := 1\<rparr>)"
    using thf by (simp add: example_warn_state_def del: differentiate_expr.simps)
  have d: "instrument_stmt example_typeOfIRExpr example_types example_warn_diffenv
       (Ist_Store Iend_LE (Iex_RdTmp 2) (Iex_Unop (Iop ''Not64'') (Iex_RdTmp 3))) example_warn_state =
     Inr (example_warn_state
            \<lparr>sb_out := (sb_out example_warn_state)
                \<lparr>stmts := [Ist_Store Iend_LE (Iex_RdTmp 2) (Iex_Unop (Iop ''Not64'') (Iex_RdTmp 3))]\<rparr>,
             printed := [], stmt_counter := 1\<rparr>)"
    using thi by (simp add: example_warn_state_def del: differentiate_expr.simps)
  from nf ni a b c d show ?thesis by (intro conjI)
qed

section \<open>The arithmetic of linearized expressions\<close>

text \<open>
  C1. The quotient rule gives the dependencies of \<open>a\<close> the factor \<open>1 / b.value\<close> and those
  of \<open>b\<close> the factor \<open>- a.value / (b.value * b.value)\<close>. \<^verbatim>\<open>divLinExpr\<close> passes
  \<^verbatim>\<open>-1./b->value\<close> and \<^verbatim>\<open>a->value/(b->value*b->value)\<close>: for \<open>a\<close> with value 1 depending on
  7 and \<open>b\<close> with value 2 depending on 8 (both with jacobian 1) the quotient has the
  value \<open>1/2\<close> and the dependencies \<open>(7, -1/2), (8, 1/4)\<close>, where the rule gives
  \<open>(7, 1/2), (8, -1/4)\<close>. The rule of \<^verbatim>\<open>differentiate_expr\<close> for \<^verbatim>\<open>Iop_DivF64\<close> has the
  signs of the quotient rule: \<open>(d2 * arg3 - d3 * arg2) / (arg3 * arg3)\<close>.
\<close>

theorem divLinExpr_signs_swapped:
  "map_option (\<lambda>(p, s). (p, map_option (\<lambda>e. (val e, deps e)) (rd s p)))
     (divLinExpr (\<lambda>_. example_unused) (0, 0) (0, 1) example_ab_state) =
     Some ((0, 2), Some (1 / 2, [(7, - (1 / 2)), (8, 1 / 4)])) \<and>
   differentiate_Triop (Iop ''DivF64'') arg1 arg2 arg3 d2 d3 =
     Some (Iex_Triop (Iop ''DivF64'') arg1
            (Iex_Triop (Iop ''SubF64'') arg1
              (Iex_Triop (Iop ''MulF64'') arg1 d2 arg3)
              (Iex_Triop (Iop ''MulF64'') arg1 d3 arg2))
            (Iex_Triop (Iop ''MulF64'') arg1 arg3 arg3))"
proof -
  have "map_option (\<lambda>(p, s). (p, map_option (\<lambda>e. (val e, deps e)) (rd s p)))
     (divLinExpr (\<lambda>_. example_unused) (0, 0) (0, 1) example_ab_state) =
     Some ((0, 2), Some (1 / 2, [(7, - (1 / 2)), (8, 1 / 4)]))"
    by (simp add: divLinExpr_def linearCombinationOfDependencies_def newLinExpr_def lc_body_def
        read_value_def read_ndep_def read_identifier_def read_jacobian_def
        write_value_def write_ndep_def write_identifier_def write_jacobian_def
        rd_def wr_def in_array_def MAX_NDEP_def deps_def
        example_ab_state_def example_a_def example_b_def example_unused_def eval_nat_numeral)
  then show ?thesis by (simp add: differentiate_Triop_def)
qed

text \<open>
  C10. \<^verbatim>\<open>normalizeLinExpr\<close> on an expression with the value 5 and the dependencies
  \<open>(2, 10), (1, 20)\<close>, the only live element of a buffer with room for three: the claim
  asks for the value 5 and the dependencies \<open>(1, 20), (2, 10)\<close>. The merge step of
  \<^verbatim>\<open>mergesortLinExpr\<close> moves whole elements of the buffer, so the expression is
  replaced by the fresh element: it ends with no dependency and with the value that
  the fresh element happened to hold.
\<close>

theorem normalizeLinExpr_loses_dependencies:
  "map_option (\<lambda>s. map_option (\<lambda>e. (val e, ndep e, deps e)) (rd s (0, 0)))
     (normalizeLinExpr (\<lambda>_. example_unused) (0, 0) example_unsorted_state) =
     Some (Some (0, 0, []))"
  by (simp add: normalizeLinExpr_def newLinExpr_def append_dependency_def ptr_add_def
        read_value_def read_ndep_def read_identifier_def read_jacobian_def
        write_value_def write_ndep_def write_identifier_def write_jacobian_def
        rd_def wr_def in_array_def MAX_NDEP_def deps_def signed_divide_int_def
        example_unsorted_state_def example_unsorted_def example_unused_def eval_nat_numeral)

section \<open>Properties of the tape\<close>

text \<open>
  C6. Recording an operation whose two partial derivatives are zero and whose two
  operand indices are 0 returns index 0 and leaves the tape as it is. The variant
  without activity analysis appends an entry whatever its arguments are, and returns
  the index of that entry, which is not 0.
\<close>

theorem tape_activity_pruning:
  "tapeAddStatement 0 0 0 0 t = (0, t) \<and>
   snd (tapeAddStatement_noActivityAnalysis i1 i2 d1 d2 t) =
     t @ [\<lparr>index1 = i1, index2 = i2, diff1 = d1, diff2 = d2\<rparr>] \<and>
   fst (tapeAddStatement_noActivityAnalysis i1 i2 d1 d2 t) =
     length (snd (tapeAddStatement_noActivityAnalysis i1 i2 d1 d2 t)) \<and>
   fst (tapeAddStatement_noActivityAnalysis i1 i2 d1 d2 t) \<noteq> 0"
  by (simp add: tapeAddStatement_def tapeAddStatement_noActivityAnalysis_def)

end
